theory Spec2Isabelle
  imports Main
begin

section \<open>Data model of \<^verbatim>\<open>handlerx/utils.go\<close>\<close>

text \<open>
  Byte slices and Go strings are \<open>string\<close> (a list of 8-bit characters). A
  \<^verbatim>\<open>json.RawMessage\<close> is a byte slice that may be \<^verbatim>\<open>nil\<close>: \<open>None\<close> is the nil
  slice, \<open>Some b\<close> a slice holding the bytes \<open>b\<close> (possibly none). \<^verbatim>\<open>len\<close> is 0
  for both the nil and the empty slice.
\<close>

type_synonym bytes = string

type_synonym RawMessage = "bytes option"

definition len :: "RawMessage \<Rightarrow> nat" where
  "len d = (case d of None \<Rightarrow> 0 | Some b \<Rightarrow> length b)"

text \<open>A Go \<^verbatim>\<open>error\<close> value, identified by a description of it.\<close>

datatype go_error = GoError string

text \<open>
  The dynamic values an \<^verbatim>\<open>interface{}\<close> entry of \<^verbatim>\<open>Extensions\<close> can hold. The
  program observes such a value in two ways: \<^verbatim>\<open>writeJSON\<close> asks whether its dynamic
  type is \<^verbatim>\<open>string\<close>, and GraphQL mode has \<^verbatim>\<open>json.Marshal\<close> serialize it.
  \<open>AnyOther\<close> stands for a value of any further type: it carries the name of that
  type and what \<^verbatim>\<open>json.Marshal\<close> makes of the value (an error for a type it does not
  support, such as a channel).
\<close>

datatype any =
    AnyString string | AnyInt int | AnyBool bool | AnyNil
  | AnyOther string "go_error + bytes"

text \<open>\<^verbatim>\<open>s, _ = n.(string)\<close>: the string held, or the zero value \<^verbatim>\<open>""\<close> when the
  dynamic type is not \<^verbatim>\<open>string\<close>.\<close>

fun string_assertion :: "any \<Rightarrow> string \<times> bool" where
  "string_assertion (AnyString s) = (s, True)"
| "string_assertion (AnyInt i) = ([], False)"
| "string_assertion (AnyBool b) = ([], False)"
| "string_assertion AnyNil = ([], False)"
| "string_assertion (AnyOther t marshalled) = ([], False)"

text \<open>\<^verbatim>\<open>ast.PathElement\<close> of gqlparser: a field name or a list index.\<close>

datatype PathElement = PathName string | PathIndex int

text \<open>
  \<^verbatim>\<open>gqlerror.Error\<close>, with the fields \<^verbatim>\<open>writeJSON\<close> reads (\<^verbatim>\<open>e.Message\<close>,
  \<^verbatim>\<open>e.Path\<close>, \<^verbatim>\<open>e.Extensions\<close>); its other fields are unset. The map
  \<^verbatim>\<open>Extensions\<close> is the list of its entries, so that it can be enumerated when it is
  serialized: \<^verbatim>\<open>e.Extensions[k]\<close> is \<open>map_of (e_Extensions e) k\<close>, and a nil map and an
  empty map both are \<open>[]\<close>.
\<close>

record Error =
  e_Message :: string
  e_Path :: "PathElement list"
  e_Extensions :: "(string \<times> any) list"

text \<open>\<^verbatim>\<open>graphql.Response\<close>, with the fields \<^verbatim>\<open>writeJSON\<close> reads (\<^verbatim>\<open>r.Errors\<close>,
  \<^verbatim>\<open>r.Data\<close>); its other fields are unset. The pointer \<^verbatim>\<open>r\<close> and the pointers
  in \<^verbatim>\<open>r.Errors\<close> are not nil.\<close>

record Response =
  r_Errors :: "Error list"
  r_Data :: RawMessage

text \<open>\<^verbatim>\<open>RESTResponse\<close> (lines 35-39). \<^verbatim>\<open>Code\<close> is a Go \<^verbatim>\<open>int\<close>; the only
  operation that could leave its range is \<^verbatim>\<open>strconv.Atoi\<close>, which saturates
  (see \<open>Atoi\<close>), so \<open>int\<close> holds it exactly.\<close>

record RESTResponse =
  Code :: int
  Message :: string
  Data :: RawMessage

section \<open>Library functions with a fixed meaning\<close>

definition StatusUnprocessableEntity :: int where
  "StatusUnprocessableEntity = 422"

definition StatusInternalServerError :: int where
  "StatusInternalServerError = 500"

text \<open>The error kinds of gqlgen's \<^verbatim>\<open>errcode\<close> package.\<close>

definition errcode_ValidationFailed :: string where
  "errcode_ValidationFailed = ''GRAPHQL_VALIDATION_FAILED''"

definition errcode_ParseFailed :: string where
  "errcode_ParseFailed = ''GRAPHQL_PARSE_FAILED''"

definition isDigit :: "char \<Rightarrow> bool" where
  "isDigit c = (c \<in> set ''0123456789'')"

definition digitVal :: "char \<Rightarrow> nat" where
  "digitVal c = of_char c - 48"

definition digitChar :: "nat \<Rightarrow> char" where
  "digitChar d = ''0123456789'' ! d"

text \<open>Decimal rendering of a natural number, most significant digit first.\<close>

fun natDigits :: "nat \<Rightarrow> string" where
  "natDigits n = (if n < 10 then [digitChar n] else natDigits (n div 10) @ [digitChar (n mod 10)])"

declare natDigits.simps [simp del]

text \<open>\<^verbatim>\<open>strconv.Itoa\<close> (also what \<^verbatim>\<open>%d\<close> prints).\<close>

definition Itoa :: "int \<Rightarrow> string" where
  "Itoa i = (if i < 0 then CHR ''-'' # natDigits (nat (- i)) else natDigits (nat i))"

text \<open>
  \<^verbatim>\<open>strconv.Atoi\<close> for a 64-bit \<^verbatim>\<open>int\<close>: an optional sign and at least one decimal
  digit. A value outside the range of \<^verbatim>\<open>int\<close> gives the nearest bound together with
  a range error; anything else that is not a number gives 0 and a syntax error.
\<close>

definition maxInt :: int where
  "maxInt = 2 ^ 63 - 1"

definition minInt :: int where
  "minInt = - (2 ^ 63)"

definition parseDigits :: "string \<Rightarrow> int" where
  "parseDigits s = foldl (\<lambda>n ch. n * 10 + int (digitVal ch)) 0 s"

definition isNumber :: "string \<Rightarrow> bool" where
  "isNumber s = (s \<noteq> [] \<and> list_all isDigit s)"

fun Atoi :: "string \<Rightarrow> int \<times> go_error option" where
  "Atoi s =
     (let (neg, ds) = (case s of
                         c # cs \<Rightarrow> if c = CHR ''-'' then (True, cs)
                                   else if c = CHR ''+'' then (False, cs) else (False, s)
                       | [] \<Rightarrow> (False, s))
      in if \<not> isNumber ds then (0, Some (GoError ''invalid syntax''))
         else let n = parseDigits ds in
           if neg then (if n > - minInt then (minInt, Some (GoError ''value out of range''))
                        else (- n, None))
           else (if n > maxInt then (maxInt, Some (GoError ''value out of range''))
                 else (n, None)))"

declare Atoi.simps [simp del]

text \<open>\<^verbatim>\<open>numRegexp = regexp.MustCompile(`^\d+$`)\<close> (line 41): in Go's syntax \<^verbatim>\<open>\d\<close> is
  an ASCII digit and \<^verbatim>\<open>$\<close> is the end of the text.\<close>

definition numRegexp_MatchString :: "string \<Rightarrow> bool" where
  "numRegexp_MatchString s = isNumber s"

text \<open>\<^verbatim>\<open>strings.Join\<close>.\<close>

fun Join :: "string list \<Rightarrow> string \<Rightarrow> string" where
  "Join [] sep = []"
| "Join [x] sep = x"
| "Join (x # y # ys) sep = x @ sep @ Join (y # ys) sep"

text \<open>\<^verbatim>\<open>ast.Path.String\<close> of gqlparser: an index prints as \<^verbatim>\<open>[i]\<close>, a name prints
  as itself, preceded by a dot unless it is the first element.\<close>

fun Path_String_from :: "nat \<Rightarrow> PathElement list \<Rightarrow> string" where
  "Path_String_from i [] = []"
| "Path_String_from i (PathIndex v # path) =
     ''['' @ Itoa v @ '']'' @ Path_String_from (Suc i) path"
| "Path_String_from i (PathName v # path) =
     (if i \<noteq> 0 then ''.'' else []) @ v @ Path_String_from (Suc i) path"

definition Path_String :: "PathElement list \<Rightarrow> string" where
  "Path_String path = Path_String_from 0 path"

section \<open>Collaborators of \<^verbatim>\<open>writeJSON\<close>\<close>

text \<open>
  The serializer is \<^verbatim>\<open>encoding/json\<close>, used at three types. It is a parameter of
  the model, so every theorem below holds for whatever the serializer does:
  \<^item> \<open>Marshal_Response\<close> is \<^verbatim>\<open>json.Marshal(r)\<close> on a \<^verbatim>\<open>*graphql.Response\<close> (line 46);
  \<^item> \<open>Marshal_REST\<close> is \<^verbatim>\<open>json.Marshal\<close> on a \<^verbatim>\<open>*RESTResponse\<close> (lines 68, 121);
  \<^item> \<open>Unmarshal_map\<close> is \<^verbatim>\<open>json.Unmarshal(r.Data, &m)\<close> into a
    \<^verbatim>\<open>map[string]json.RawMessage\<close> (line 83). The decoded map is given as the list
    of its entries in the order in which the \<^verbatim>\<open>range\<close> statement of line 88 visits
    them; Go does not specify that order, and nothing is assumed about it.
  A result is \<open>Inl err\<close> when the Go function returns a non-nil error.
\<close>

record jsonlib =
  Marshal_Response :: "Response \<Rightarrow> go_error + bytes"
  Marshal_REST :: "RESTResponse \<Rightarrow> go_error + bytes"
  Unmarshal_map :: "bytes \<Rightarrow> go_error + (string \<times> RawMessage) list"

text \<open>An \<^verbatim>\<open>io.Writer\<close> with state \<open>'w\<close>: \<^verbatim>\<open>Write(p)\<close> returns the number of
  bytes it took and an error or nil, and moves the sink to a new state. It returns
  normally.\<close>

type_synonym 'w Writer = "bytes \<Rightarrow> 'w \<Rightarrow> (nat \<times> go_error option) \<times> 'w"

text \<open>The \<^verbatim>\<open>Printer\<close> interface (lines 146-149), printing into a sink with state
  \<open>'p\<close>. Both methods return normally.\<close>

record 'p Printer =
  Println :: "any list \<Rightarrow> 'p \<Rightarrow> 'p"
  Printf :: "string \<Rightarrow> any list \<Rightarrow> 'p \<Rightarrow> 'p"

text \<open>The package variable \<^verbatim>\<open>_printer\<close> (line 151) holds \<open>None\<close> for the nil
  interface, which is its initial value, or \<open>Some\<close> printer.
  \<^verbatim>\<open>RegisterPrinter\<close> (lines 153-155) overwrites it.\<close>

definition unset_printer :: "'p Printer option" where
  "unset_printer = None"

definition RegisterPrinter :: "'p Printer option \<Rightarrow> 'p Printer option \<Rightarrow> 'p Printer option" where
  "RegisterPrinter printer old_printer = printer"

text \<open>\<^verbatim>\<open>dbgPrintf\<close> (lines 157-161): the type assertion \<^verbatim>\<open>_printer.(Printer)\<close>
  succeeds exactly when the variable is not nil.\<close>

definition dbgPrintf :: "'p Printer option \<Rightarrow> string \<Rightarrow> any list \<Rightarrow> 'p \<Rightarrow> 'p" where
  "dbgPrintf printer format v p =
     (case printer of Some pr \<Rightarrow> Printf pr format v p | None \<Rightarrow> p)"

section \<open>\<^verbatim>\<open>writeJSON\<close>\<close>

text \<open>How a call ends: it returns, or it panics with an error value.\<close>

datatype outcome = Returned | Panicked go_error

text \<open>\<^verbatim>\<open>_, err = w.Write(b); if err != nil { panic(err) }\<close>\<close>

definition write_or_panic :: "'w Writer \<Rightarrow> bytes \<Rightarrow> 'w \<Rightarrow> outcome \<times> 'w" where
  "write_or_panic W b w =
     (case W b w of
        ((n, None), w') \<Rightarrow> (Returned, w')
      | ((n, Some err), w') \<Rightarrow> (Panicked err, w'))"

text \<open>\<^verbatim>\<open>b, err := json.Marshal(..); if err != nil { panic(err) }\<close> followed by the
  write (lines 46-53 and 121-129).\<close>

definition marshal_and_write :: "'w Writer \<Rightarrow> go_error + bytes \<Rightarrow> 'w \<Rightarrow> outcome \<times> 'w" where
  "marshal_and_write W marshalled w =
     (case marshalled of
        Inl err \<Rightarrow> (Panicked err, w)
      | Inr b \<Rightarrow> write_or_panic W b w)"

text \<open>Lines 76-92: the envelope's data. A non-empty payload is decoded, a decoding
  error panics, and the first entry the \<^verbatim>\<open>range\<close> visits replaces the data. With no
  entry (an empty or nil map) the loop body does not run.\<close>

definition bytesOf :: "RawMessage \<Rightarrow> bytes" where
  "bytesOf d = (case d of None \<Rightarrow> [] | Some b \<Rightarrow> b)"

definition extractData :: "jsonlib \<Rightarrow> RawMessage \<Rightarrow> go_error + RawMessage" where
  "extractData lib d =
     (if len d > 0 then
        (case Unmarshal_map lib (bytesOf d) of
           Inl err \<Rightarrow> Inl err
         | Inr m \<Rightarrow> (case m of [] \<Rightarrow> Inr d | (k, v) # rest \<Rightarrow> Inr v))
      else Inr d)"

text \<open>Lines 96-105: the loop over \<^verbatim>\<open>r.Errors\<close>, with the variables \<^verbatim>\<open>code\<close> and
  \<^verbatim>\<open>msgs\<close> as accumulators.\<close>

fun errorsLoop :: "Error list \<Rightarrow> string \<Rightarrow> string list \<Rightarrow> string \<times> string list" where
  "errorsLoop [] code msgs = (code, msgs)"
| "errorsLoop (e # es) code msgs =
     errorsLoop es
       (case map_of (e_Extensions e) ''code'' of
          Some n \<Rightarrow> fst (string_assertion n)
        | None \<Rightarrow> code)
       (if length (e_Path e) > 0
        then msgs @ [e_Message e @ '' '' @ Path_String (e_Path e)]
        else msgs @ [e_Message e])"

text \<open>Lines 107-116: from the working code string to \<^verbatim>\<open>response.Code\<close>. The error
  of \<^verbatim>\<open>Atoi\<close> is dropped.\<close>

definition resolveCode :: "string \<Rightarrow> int" where
  "resolveCode code =
     (if numRegexp_MatchString code then fst (Atoi code)
      else if code = errcode_ValidationFailed \<or> code = errcode_ParseFailed
           then StatusUnprocessableEntity
           else StatusInternalServerError)"

text \<open>Lines 94-119: code and message of the envelope; both keep their initial values
  (0 and the empty string) when there is no error.\<close>

definition codeAndMessage :: "Error list \<Rightarrow> int \<times> string" where
  "codeAndMessage errs =
     (if length errs > 0 then
        (case errorsLoop errs (Itoa StatusUnprocessableEntity) [] of
           (code, msgs) \<Rightarrow> (resolveCode code, Join msgs ''; ''))
      else (0, []))"

text \<open>Lines 76-119: the envelope that reaches \<^verbatim>\<open>json.Marshal\<close> at line 121, or the
  error of the panic of line 85.\<close>

definition restResponse :: "jsonlib \<Rightarrow> Response \<Rightarrow> go_error + RESTResponse" where
  "restResponse lib r =
     (case extractData lib (r_Data r) of
        Inl err \<Rightarrow> Inl err
      | Inr d \<Rightarrow>
          Inr \<lparr>Code = fst (codeAndMessage (r_Errors r)),
               Message = snd (codeAndMessage (r_Errors r)),
               Data = d\<rparr>)"

text \<open>The envelope of the deferred function (lines 64-67).\<close>

definition fallbackResponse :: RESTResponse where
  "fallbackResponse =
     \<lparr>Code = StatusInternalServerError,
      Message = ''unexpected error: unmarshal or write response error'',
      Data = None\<rparr>"

text \<open>\<^verbatim>\<open>content, _ := json.Marshal(r)\<close> (line 68): the error is dropped, and with an
  error \<^verbatim>\<open>json.Marshal\<close> returns no bytes.\<close>

definition fallbackContent :: "jsonlib \<Rightarrow> bytes" where
  "fallbackContent lib =
     (case Marshal_REST lib fallbackResponse of Inl err \<Rightarrow> [] | Inr b \<Rightarrow> b)"

text \<open>
  Lines 58-73, the deferred function once \<^verbatim>\<open>recover()\<close> has returned the panic
  value: it prints at most 4096 bytes of the goroutine's stack trace \<open>stack\<close>, writes
  the serialized fallback envelope, and panics again if that write fails. The panic
  value itself is only compared with nil.
\<close>

definition recovered ::
  "jsonlib \<Rightarrow> 'w Writer \<Rightarrow> 'p Printer option \<Rightarrow> string \<Rightarrow> 'w \<times> 'p \<Rightarrow> outcome \<times> 'w \<times> 'p" where
  "recovered lib W printer stack s =
     (case s of (w, p) \<Rightarrow>
        let p' = dbgPrintf printer ''restful response recover from panic:%v''
                   [AnyString (take 4096 stack)] p
        in (case write_or_panic W (fallbackContent lib) w of (oc, w') \<Rightarrow> (oc, w', p')))"

text \<open>Lines 121-129 under the deferred function: serialize and write the envelope;
  a panic of either step is recovered.\<close>

definition emit ::
  "jsonlib \<Rightarrow> 'w Writer \<Rightarrow> 'p Printer option \<Rightarrow> string \<Rightarrow> RESTResponse \<Rightarrow> 'w \<times> 'p
     \<Rightarrow> outcome \<times> 'w \<times> 'p" where
  "emit lib W printer stack response s =
     (case s of (w, p) \<Rightarrow>
        (case marshal_and_write W (Marshal_REST lib response) w of
           (Returned, w') \<Rightarrow> (Returned, w', p)
         | (Panicked err, w') \<Rightarrow> recovered lib W printer stack (w', p)))"

text \<open>\<^verbatim>\<open>writeJSON\<close> (lines 43-130), from the state \<open>(w, p)\<close> of the output sink and
  of the diagnostic sink to the way the call ends and their new states.\<close>

definition writeJSON ::
  "jsonlib \<Rightarrow> 'w Writer \<Rightarrow> 'p Printer option \<Rightarrow> string \<Rightarrow> Response \<Rightarrow> bool \<Rightarrow> 'w \<times> 'p
     \<Rightarrow> outcome \<times> 'w \<times> 'p" where
  "writeJSON lib W printer stack r isRESTful s =
     (case s of (w, p) \<Rightarrow>
        if \<not> isRESTful then
          (case marshal_and_write W (Marshal_Response lib r) w of (oc, w') \<Rightarrow> (oc, w', p))
        else
          (case restResponse lib r of
             Inl err \<Rightarrow> recovered lib W printer stack (w, p)
           | Inr response \<Rightarrow> emit lib W printer stack response (w, p)))"

text \<open>\<^verbatim>\<open>writeJSONError\<close> (lines 132-137): the code goes into the extensions as a Go
  \<^verbatim>\<open>int\<close>.\<close>

definition writeJSONError ::
  "jsonlib \<Rightarrow> 'w Writer \<Rightarrow> 'p Printer option \<Rightarrow> string \<Rightarrow> int \<Rightarrow> bool \<Rightarrow> string \<Rightarrow> 'w \<times> 'p
     \<Rightarrow> outcome \<times> 'w \<times> 'p" where
  "writeJSONError lib W printer stack code isRESTful msg s =
     writeJSON lib W printer stack
       \<lparr>r_Errors = [\<lparr>e_Message = msg, e_Path = [],
                     e_Extensions = [(''code'', AnyInt code)]\<rparr>],
        r_Data = None\<rparr>
       isRESTful s"

section \<open>A model of \<^verbatim>\<open>encoding/json\<close>\<close>

text \<open>
  A theorem about \<^verbatim>\<open>writeJSON\<close> with the serializer \<open>lib\<close> holds for every serializer.
  Where a claim depends on what the serializer does, and in the examples, the serializer
  is \<open>encoding_json\<close>: this section follows \<^verbatim>\<open>encoding/json\<close> of Go 1.22 on the three
  operations \<^verbatim>\<open>writeJSON\<close> uses. The scanner is the state machine of \<^verbatim>\<open>scanner.go\<close>:
  one step function per state, and the stack of the enclosing objects and arrays.
\<close>

text \<open>A byte as a number, and the character classes of the scanner.\<close>

definition byte :: "char \<Rightarrow> nat" where
  "byte c = of_char c"

definition isSpace :: "char \<Rightarrow> bool" where
  "isSpace c = (c = CHR '' '' \<or> c = CHR 0x09 \<or> c = CHR 0x0D \<or> c = CHR 0x0A)"

definition isHex :: "char \<Rightarrow> bool" where
  "isHex c = (c \<in> set ''0123456789abcdefABCDEF'')"

text \<open>What encloses the value being read, and the state (the \<^verbatim>\<open>step\<close> function of
  \<^verbatim>\<open>scanner.go\<close>) the scanner is in.\<close>

datatype parseState = parseObjectKey | parseObjectValue | parseArrayValue

datatype step =
    stateBeginValueOrEmpty | stateBeginValue | stateBeginStringOrEmpty | stateBeginString
  | stateEndValue | stateEndTop
  | stateInString | stateInStringEsc | stateInStringEscU | stateInStringEscU1
  | stateInStringEscU12 | stateInStringEscU123
  | stateNeg | state1 | state0 | stateDot | stateDot0 | stateE | stateESign | stateE0
  | stateT | stateTr | stateTru | stateF | stateFa | stateFal | stateFals
  | stateN | stateNu | stateNul
  | stateError

type_synonym scanner = "step \<times> parseState list"

definition maxNestingDepth :: nat where
  "maxNestingDepth = 10000"

text \<open>Entering and leaving an object or an array; the stack has its top first.\<close>

definition pushParseState :: "parseState list \<Rightarrow> parseState \<Rightarrow> step \<Rightarrow> scanner" where
  "pushParseState ps newParseState successState =
     (if length ps + 1 \<le> maxNestingDepth then (successState, newParseState # ps)
      else (stateError, ps))"

definition popParseState :: "parseState list \<Rightarrow> scanner" where
  "popParseState ps =
     (case tl ps of [] \<Rightarrow> (stateEndTop, []) | p # ps' \<Rightarrow> (stateEndValue, p # ps'))"

text \<open>The step functions that other step functions call.\<close>

definition do_stateEndTop :: "parseState list \<Rightarrow> char \<Rightarrow> scanner" where
  "do_stateEndTop ps c = (if isSpace c then (stateEndTop, ps) else (stateError, ps))"

definition do_stateEndValue :: "parseState list \<Rightarrow> char \<Rightarrow> scanner" where
  "do_stateEndValue ps c =
     (case ps of
        [] \<Rightarrow> do_stateEndTop ps c
      | p # rest \<Rightarrow>
          if isSpace c then (stateEndValue, ps)
          else (case p of
                  parseObjectKey \<Rightarrow>
                    if c = CHR '':'' then (stateBeginValue, parseObjectValue # rest)
                    else (stateError, ps)
                | parseObjectValue \<Rightarrow>
                    if c = CHR '','' then (stateBeginString, parseObjectKey # rest)
                    else if c = CHR ''}'' then popParseState ps
                    else (stateError, ps)
                | parseArrayValue \<Rightarrow>
                    if c = CHR '','' then (stateBeginValue, ps)
                    else if c = CHR '']'' then popParseState ps
                    else (stateError, ps)))"

definition do_stateBeginValue :: "parseState list \<Rightarrow> char \<Rightarrow> scanner" where
  "do_stateBeginValue ps c =
     (if isSpace c then (stateBeginValue, ps)
      else if c = CHR ''{'' then pushParseState ps parseObjectKey stateBeginStringOrEmpty
      else if c = CHR ''['' then pushParseState ps parseArrayValue stateBeginValueOrEmpty
      else if c = CHR 0x22 then (stateInString, ps)
      else if c = CHR ''-'' then (stateNeg, ps)
      else if c = CHR ''0'' then (state0, ps)
      else if c = CHR ''t'' then (stateT, ps)
      else if c = CHR ''f'' then (stateF, ps)
      else if c = CHR ''n'' then (stateN, ps)
      else if c \<in> set ''123456789'' then (state1, ps)
      else (stateError, ps))"

definition do_stateBeginString :: "parseState list \<Rightarrow> char \<Rightarrow> scanner" where
  "do_stateBeginString ps c =
     (if isSpace c then (stateBeginString, ps)
      else if c = CHR 0x22 then (stateInString, ps)
      else (stateError, ps))"

definition do_state0 :: "parseState list \<Rightarrow> char \<Rightarrow> scanner" where
  "do_state0 ps c =
     (if c = CHR ''.'' then (stateDot, ps)
      else if c = CHR ''e'' \<or> c = CHR ''E'' then (stateE, ps)
      else do_stateEndValue ps c)"

definition do_stateESign :: "parseState list \<Rightarrow> char \<Rightarrow> scanner" where
  "do_stateESign ps c = (if c \<in> set ''0123456789'' then (stateE0, ps) else (stateError, ps))"

definition expect :: "char \<Rightarrow> step \<Rightarrow> parseState list \<Rightarrow> char \<Rightarrow> scanner" where
  "expect want next ps c = (if c = want then (next, ps) else (stateError, ps))"

text \<open>One byte: the step function of the current state.\<close>

fun scan_step :: "scanner \<Rightarrow> char \<Rightarrow> scanner" where
  "scan_step (stateBeginValueOrEmpty, ps) c =
     (if isSpace c then (stateBeginValueOrEmpty, ps)
      else if c = CHR '']'' then do_stateEndValue ps c
      else do_stateBeginValue ps c)"
| "scan_step (stateBeginValue, ps) c = do_stateBeginValue ps c"
| "scan_step (stateBeginStringOrEmpty, ps) c =
     (if isSpace c then (stateBeginStringOrEmpty, ps)
      else if c = CHR ''}'' then do_stateEndValue (parseObjectValue # tl ps) c
      else do_stateBeginString ps c)"
| "scan_step (stateBeginString, ps) c = do_stateBeginString ps c"
| "scan_step (stateEndValue, ps) c = do_stateEndValue ps c"
| "scan_step (stateEndTop, ps) c = do_stateEndTop ps c"
| "scan_step (stateInString, ps) c =
     (if c = CHR 0x22 then (stateEndValue, ps)
      else if c = CHR 0x5C then (stateInStringEsc, ps)
      else if byte c < 0x20 then (stateError, ps)
      else (stateInString, ps))"
| "scan_step (stateInStringEsc, ps) c =
     (if c \<in> set ''bfnrt'' \<or> c = CHR 0x5C \<or> c = CHR ''/'' \<or> c = CHR 0x22 then (stateInString, ps)
      else if c = CHR ''u'' then (stateInStringEscU, ps)
      else (stateError, ps))"
| "scan_step (stateInStringEscU, ps) c = (if isHex c then (stateInStringEscU1, ps) else (stateError, ps))"
| "scan_step (stateInStringEscU1, ps) c = (if isHex c then (stateInStringEscU12, ps) else (stateError, ps))"
| "scan_step (stateInStringEscU12, ps) c = (if isHex c then (stateInStringEscU123, ps) else (stateError, ps))"
| "scan_step (stateInStringEscU123, ps) c = (if isHex c then (stateInString, ps) else (stateError, ps))"
| "scan_step (stateNeg, ps) c =
     (if c = CHR ''0'' then (state0, ps)
      else if c \<in> set ''123456789'' then (state1, ps)
      else (stateError, ps))"
| "scan_step (state1, ps) c = (if c \<in> set ''0123456789'' then (state1, ps) else do_state0 ps c)"
| "scan_step (state0, ps) c = do_state0 ps c"
| "scan_step (stateDot, ps) c = (if c \<in> set ''0123456789'' then (stateDot0, ps) else (stateError, ps))"
| "scan_step (stateDot0, ps) c =
     (if c \<in> set ''0123456789'' then (stateDot0, ps)
      else if c = CHR ''e'' \<or> c = CHR ''E'' then (stateE, ps)
      else do_stateEndValue ps c)"
| "scan_step (stateE, ps) c =
     (if c = CHR ''+'' \<or> c = CHR ''-'' then (stateESign, ps) else do_stateESign ps c)"
| "scan_step (stateESign, ps) c = do_stateESign ps c"
| "scan_step (stateE0, ps) c = (if c \<in> set ''0123456789'' then (stateE0, ps) else do_stateEndValue ps c)"
| "scan_step (stateT, ps) c = expect CHR ''r'' stateTr ps c"
| "scan_step (stateTr, ps) c = expect CHR ''u'' stateTru ps c"
| "scan_step (stateTru, ps) c = expect CHR ''e'' stateEndValue ps c"
| "scan_step (stateF, ps) c = expect CHR ''a'' stateFa ps c"
| "scan_step (stateFa, ps) c = expect CHR ''l'' stateFal ps c"
| "scan_step (stateFal, ps) c = expect CHR ''s'' stateFals ps c"
| "scan_step (stateFals, ps) c = expect CHR ''e'' stateEndValue ps c"
| "scan_step (stateN, ps) c = expect CHR ''u'' stateNu ps c"
| "scan_step (stateNu, ps) c = expect CHR ''l'' stateNul ps c"
| "scan_step (stateNul, ps) c = expect CHR ''l'' stateEndValue ps c"
| "scan_step (stateError, ps) c = (stateError, ps)"

text \<open>\<^verbatim>\<open>eof\<close>: the text has ended; a number at the top level ends here.\<close>

definition scan_eof :: "scanner \<Rightarrow> bool" where
  "scan_eof sc =
     (if fst sc = stateError then False
      else if fst sc = stateEndTop then True
      else fst (scan_step sc CHR '' '') = stateEndTop)"

text \<open>\<^verbatim>\<open>checkValid\<close> (\<^verbatim>\<open>json.Valid\<close>): the text is one JSON value.\<close>

definition Valid :: "string \<Rightarrow> bool" where
  "Valid data = scan_eof (foldl scan_step (stateBeginValue, []) data)"


text \<open>The escapes the encoder writes: \<^verbatim>\<open>\u00XX\<close> for a byte, \<^verbatim>\<open>\u2028\<close> and
  \<^verbatim>\<open>\u2029\<close> for the two line separators (the bytes E2 80 A8 and E2 80 A9).\<close>

definition hexChar :: "nat \<Rightarrow> char" where
  "hexChar d = ''0123456789abcdef'' ! d"

definition escape_u00 :: "char \<Rightarrow> string" where
  "escape_u00 c = [CHR 0x5C, CHR ''u'', CHR ''0'', CHR ''0'', hexChar (byte c div 16), hexChar (byte c mod 16)]"

definition isCont :: "char \<Rightarrow> bool" where
  "isCont c = (0x80 \<le> byte c \<and> byte c \<le> 0xBF)"

text \<open>\<^verbatim>\<open>utf8.DecodeRune\<close>: the number of bytes of the well-formed UTF-8 sequence at the
  head of the text, or 0 when there is none.\<close>

fun utf8_size :: "string \<Rightarrow> nat" where
  "utf8_size [] = 0"
| "utf8_size (c # cs) =
     (let b = byte c in
      if b < 0x80 then 1
      else if 0xC2 \<le> b \<and> b \<le> 0xDF then
        (case cs of c1 # _ \<Rightarrow> if isCont c1 then 2 else 0 | _ \<Rightarrow> 0)
      else if 0xE0 \<le> b \<and> b \<le> 0xEF then
        (case cs of c1 # c2 # _ \<Rightarrow>
           if (if b = 0xE0 then 0xA0 else 0x80) \<le> byte c1 \<and>
              byte c1 \<le> (if b = 0xED then 0x9F else 0xBF) \<and> isCont c2 then 3 else 0
         | _ \<Rightarrow> 0)
      else if 0xF0 \<le> b \<and> b \<le> 0xF4 then
        (case cs of c1 # c2 # c3 # _ \<Rightarrow>
           if (if b = 0xF0 then 0x90 else 0x80) \<le> byte c1 \<and>
              byte c1 \<le> (if b = 0xF4 then 0x8F else 0xBF) \<and> isCont c2 \<and> isCont c3 then 4 else 0
         | _ \<Rightarrow> 0)
      else 0)"

definition isLineSep :: "string \<Rightarrow> bool" where
  "isLineSep s = (case s of c # c1 # c2 # _ \<Rightarrow>
       c = CHR 0xE2 \<and> c1 = CHR 0x80 \<and> (c2 = CHR 0xA8 \<or> c2 = CHR 0xA9) | _ \<Rightarrow> False)"

definition escape_u202 :: "string \<Rightarrow> string" where
  "escape_u202 s = [CHR 0x5C, CHR ''u'', CHR ''2'', CHR ''0'', CHR ''2'', hexChar (byte (s ! 2) mod 16)]"

text \<open>\<^verbatim>\<open>appendString\<close> with HTML escaping, between the quotes.\<close>

fun appendString_from :: "string \<Rightarrow> string" where
  "appendString_from [] = []"
| "appendString_from (c # cs) =
     (if byte c < 0x80 then
        (if c = CHR 0x5C \<or> c = CHR 0x22 then [CHR 0x5C, c]
         else if c = CHR 0x08 then [CHR 0x5C, CHR ''b'']
         else if c = CHR 0x0C then [CHR 0x5C, CHR ''f'']
         else if c = CHR 0x0A then [CHR 0x5C, CHR ''n'']
         else if c = CHR 0x0D then [CHR 0x5C, CHR ''r'']
         else if c = CHR 0x09 then [CHR 0x5C, CHR ''t'']
         else if byte c < 0x20 \<or> c = CHR ''<'' \<or> c = CHR ''>'' \<or> c = CHR ''&'' then escape_u00 c
         else [c]) @ appendString_from cs
      else if utf8_size (c # cs) = 0 then
        [CHR 0x5C, CHR ''u'', CHR ''f'', CHR ''f'', CHR ''f'', CHR ''d''] @ appendString_from cs
      else if isLineSep (c # cs) then escape_u202 (c # cs) @ appendString_from (drop 2 cs)
      else take (utf8_size (c # cs)) (c # cs) @ appendString_from (drop (utf8_size (c # cs) - 1) cs))"

definition appendString :: "string \<Rightarrow> string" where
  "appendString src = [CHR 0x22] @ appendString_from src @ [CHR 0x22]"

text \<open>\<^verbatim>\<open>appendCompact\<close> with HTML escaping.\<close>

fun appendCompact_from :: "scanner \<Rightarrow> string \<Rightarrow> scanner \<times> string" where
  "appendCompact_from sc [] = (sc, [])"
| "appendCompact_from sc (c # cs) =
     (let sc' = scan_step sc c in
      if fst sc' = stateError then (sc', [])
      else if isLineSep (c # cs) then
        (case appendCompact_from (foldl scan_step sc' (take 2 cs)) (drop 2 cs) of
           (sc'', out) \<Rightarrow> (sc'', escape_u202 (c # cs) @ out))
      else
        (case appendCompact_from sc' cs of
           (sc'', out) \<Rightarrow>
             (sc'', (if c = CHR ''<'' \<or> c = CHR ''>'' \<or> c = CHR ''&'' then escape_u00 c
                     else if isSpace c \<and> fst sc \<noteq> stateInString then []
                     else [c]) @ out)))"

definition appendCompact :: "bytes \<Rightarrow> go_error + bytes" where
  "appendCompact src =
     (case appendCompact_from (stateBeginValue, []) src of
        (sc, out) \<Rightarrow> if scan_eof sc then Inr out else Inl (GoError ''*json.SyntaxError''))"


definition hexVal :: "char \<Rightarrow> nat" where
  "hexVal c = (if isDigit c then byte c - 48
               else if c \<in> set ''abcdef'' then byte c - 87 else byte c - 55)"

text \<open>\<^verbatim>\<open>getu4\<close>: the number of a \<^verbatim>\<open>\uXXXX\<close> escape at the head of the text.\<close>

definition getu4 :: "string \<Rightarrow> nat option" where
  "getu4 s =
     (case s of
        b # u # h1 # h2 # h3 # h4 # _ \<Rightarrow>
          if b = CHR 0x5C \<and> u = CHR ''u'' \<and> isHex h1 \<and> isHex h2 \<and> isHex h3 \<and> isHex h4
          then Some (((hexVal h1 * 16 + hexVal h2) * 16 + hexVal h3) * 16 + hexVal h4)
          else None
      | _ \<Rightarrow> None)"

definition isSurrogate :: "nat \<Rightarrow> bool" where
  "isSurrogate r = (0xD800 \<le> r \<and> r < 0xE000)"

text \<open>\<^verbatim>\<open>utf8.EncodeRune\<close>.\<close>

definition encodeRune :: "nat \<Rightarrow> string" where
  "encodeRune r =
     (if r < 0x80 then [char_of r]
      else if r < 0x800 then [char_of (0xC0 + r div 64), char_of (0x80 + r mod 64)]
      else if isSurrogate r \<or> 0x10FFFF < r then [CHR 0xEF, CHR 0xBF, CHR 0xBD]
      else if r < 0x10000 then
        [char_of (0xE0 + r div 4096), char_of (0x80 + r div 64 mod 64), char_of (0x80 + r mod 64)]
      else [char_of (0xF0 + r div 262144), char_of (0x80 + r div 4096 mod 64),
            char_of (0x80 + r div 64 mod 64), char_of (0x80 + r mod 64)])"

text \<open>\<^verbatim>\<open>utf16.DecodeRune\<close>.\<close>

definition decodeSurrogates :: "nat \<Rightarrow> nat \<Rightarrow> nat" where
  "decodeSurrogates r1 r2 =
     (if r1 < 0xDC00 \<and> 0xDC00 \<le> r2 \<and> r2 < 0xE000
      then (r1 - 0xD800) * 1024 + (r2 - 0xDC00) + 0x10000
      else 0xFFFD)"

definition unescape :: "char \<Rightarrow> char" where
  "unescape e =
     (if e = CHR ''b'' then CHR 0x08 else if e = CHR ''f'' then CHR 0x0C
      else if e = CHR ''n'' then CHR 0x0A else if e = CHR ''r'' then CHR 0x0D
      else if e = CHR ''t'' then CHR 0x09 else e)"

text \<open>\<^verbatim>\<open>unquote\<close> on the text between the quotes of a string literal the scanner
  has accepted.\<close>

fun unquote_from :: "string \<Rightarrow> string" where
  "unquote_from [] = []"
| "unquote_from (c # cs) =
     (if c = CHR 0x5C then
        (case getu4 (c # cs) of
           Some rr \<Rightarrow>
             (if isSurrogate rr then
                (case getu4 (drop 5 cs) of
                   Some rr1 \<Rightarrow>
                     if decodeSurrogates rr rr1 \<noteq> 0xFFFD
                     then encodeRune (decodeSurrogates rr rr1) @ unquote_from (drop 11 cs)
                     else encodeRune 0xFFFD @ unquote_from (drop 5 cs)
                 | None \<Rightarrow> encodeRune 0xFFFD @ unquote_from (drop 5 cs))
              else encodeRune rr @ unquote_from (drop 5 cs))
         | None \<Rightarrow> (case cs of e # cs' \<Rightarrow> unescape e # unquote_from cs' | [] \<Rightarrow> []))
      else if byte c < 0x80 then c # unquote_from cs
      else if utf8_size (c # cs) = 0 then encodeRune 0xFFFD @ unquote_from cs
      else take (utf8_size (c # cs)) (c # cs) @ unquote_from (drop (utf8_size (c # cs) - 1) cs))"

text \<open>
  The members of the object at the top of a text the scanner has accepted: the text
  between the quotes of each key and the bytes of each value, in the order of the text.
  The fold keeps where it is (\<open>mode\<close>) and the key and value it is reading.
\<close>

datatype mode =
    AtStart | AtKeyOrEnd | InKey bool | AtColon | AtValue
  | InStringValue bool | InNestedValue nat bool bool | InLiteralValue
  | AfterValue | AtEnd

type_synonym splitter = "mode \<times> string \<times> string \<times> (string \<times> string) list"

fun split_step :: "splitter \<Rightarrow> char \<Rightarrow> splitter" where
  "split_step (AtStart, k, v, ms) c =
     (if c = CHR ''{'' then (AtKeyOrEnd, k, v, ms) else (AtStart, k, v, ms))"
| "split_step (AtKeyOrEnd, k, v, ms) c =
     (if c = CHR 0x22 then (InKey False, [], [], ms)
      else if c = CHR ''}'' then (AtEnd, k, v, ms)
      else (AtKeyOrEnd, k, v, ms))"
| "split_step (InKey esc, k, v, ms) c =
     (if esc then (InKey False, k @ [c], v, ms)
      else if c = CHR 0x5C then (InKey True, k @ [c], v, ms)
      else if c = CHR 0x22 then (AtColon, k, v, ms)
      else (InKey False, k @ [c], v, ms))"
| "split_step (AtColon, k, v, ms) c =
     (if c = CHR '':'' then (AtValue, k, v, ms) else (AtColon, k, v, ms))"
| "split_step (AtValue, k, v, ms) c =
     (if isSpace c then (AtValue, k, v, ms)
      else if c = CHR 0x22 then (InStringValue False, k, [c], ms)
      else if c = CHR ''{'' \<or> c = CHR ''['' then (InNestedValue 1 False False, k, [c], ms)
      else (InLiteralValue, k, [c], ms))"
| "split_step (InStringValue esc, k, v, ms) c =
     (if esc then (InStringValue False, k, v @ [c], ms)
      else if c = CHR 0x5C then (InStringValue True, k, v @ [c], ms)
      else if c = CHR 0x22 then (AfterValue, k, v @ [c], ms @ [(k, v @ [c])])
      else (InStringValue False, k, v @ [c], ms))"
| "split_step (InNestedValue d inStr esc, k, v, ms) c =
     (if inStr then
        (if esc then (InNestedValue d True False, k, v @ [c], ms)
         else if c = CHR 0x5C then (InNestedValue d True True, k, v @ [c], ms)
         else if c = CHR 0x22 then (InNestedValue d False False, k, v @ [c], ms)
         else (InNestedValue d True False, k, v @ [c], ms))
      else if c = CHR 0x22 then (InNestedValue d True False, k, v @ [c], ms)
      else if c = CHR ''{'' \<or> c = CHR ''['' then (InNestedValue (Suc d) False False, k, v @ [c], ms)
      else if c = CHR ''}'' \<or> c = CHR '']'' then
        (if d = 1 then (AfterValue, k, v @ [c], ms @ [(k, v @ [c])])
         else (InNestedValue (d - 1) False False, k, v @ [c], ms))
      else (InNestedValue d False False, k, v @ [c], ms))"
| "split_step (InLiteralValue, k, v, ms) c =
     (if c = CHR '','' then (AtKeyOrEnd, k, v, ms @ [(k, v)])
      else if c = CHR ''}'' then (AtEnd, k, v, ms @ [(k, v)])
      else if isSpace c then (AfterValue, k, v, ms @ [(k, v)])
      else (InLiteralValue, k, v @ [c], ms))"
| "split_step (AfterValue, k, v, ms) c =
     (if c = CHR '','' then (AtKeyOrEnd, k, v, ms)
      else if c = CHR ''}'' then (AtEnd, k, v, ms)
      else (AfterValue, k, v, ms))"
| "split_step (AtEnd, k, v, ms) c = (AtEnd, k, v, ms)"

definition members :: "string \<Rightarrow> (string \<times> string) list" where
  "members data = snd (snd (snd (foldl split_step (AtStart, [], [], []) data)))"

text \<open>Storing under a key of a Go map: a key already present keeps its place and
  takes the new value.\<close>

fun mapStore :: "(string \<times> RawMessage) list \<Rightarrow> string \<Rightarrow> RawMessage \<Rightarrow> (string \<times> RawMessage) list" where
  "mapStore [] k v = [(k, v)]"
| "mapStore ((k', v') # m) k v = (if k' = k then (k, v) # m else (k', v') # mapStore m k v)"

text \<open>
  \<^verbatim>\<open>json.Unmarshal(data, &m)\<close> for a nil \<^verbatim>\<open>m\<close> of type
  \<^verbatim>\<open>map[string]json.RawMessage\<close>: a syntax error for a text that is no JSON value; a
  map with one entry per distinct key for an object, the last value of a key winning;
  the nil map for \<^verbatim>\<open>null\<close>; a type error for an array, a string, a number or a
  truth value. The entries are listed in the order of the text.
\<close>

definition Unmarshal_map_std :: "bytes \<Rightarrow> go_error + (string \<times> RawMessage) list" where
  "Unmarshal_map_std data =
     (if \<not> Valid data then Inl (GoError ''*json.SyntaxError'')
      else (case dropWhile isSpace data of
              c # cs \<Rightarrow>
                if c = CHR ''{'' then
                  Inr (foldl (\<lambda>m (k, v). mapStore m (unquote_from k) (Some v)) [] (members data))
                else if c = CHR ''n'' then Inr []
                else Inl (GoError ''*json.UnmarshalTypeError'')
            | [] \<Rightarrow> Inl (GoError ''*json.SyntaxError'')))"


text \<open>\<^verbatim>\<open>RawMessage.MarshalJSON\<close> followed by the encoder's compaction: \<^verbatim>\<open>null\<close> for
  the nil slice.\<close>

definition encodeRaw :: "RawMessage \<Rightarrow> go_error + bytes" where
  "encodeRaw d =
     (case d of
        None \<Rightarrow> Inr ''null''
      | Some b \<Rightarrow> (case appendCompact b of
                     Inl err \<Rightarrow> Inl (GoError ''*json.MarshalerError'')
                   | Inr out \<Rightarrow> Inr out))"

text \<open>\<^verbatim>\<open>json.Marshal\<close> on a \<^verbatim>\<open>*RESTResponse\<close>, by the struct tags of lines 36-38.\<close>

definition Marshal_REST_std :: "RESTResponse \<Rightarrow> go_error + bytes" where
  "Marshal_REST_std response =
     (case encodeRaw (Data response) of
        Inl err \<Rightarrow> Inl err
      | Inr d \<Rightarrow>
          Inr (''{\"code\":'' @ Itoa (Code response) @
               (if Message response = [] then []
                else '',\"message\":'' @ appendString (Message response)) @
               '',\"data\":'' @ d @ ''}''))"



text \<open>Go's order on strings, byte by byte.\<close>

fun stringLess :: "string \<Rightarrow> string \<Rightarrow> bool" where
  "stringLess [] [] = False"
| "stringLess [] (y # ys) = True"
| "stringLess (x # xs) [] = False"
| "stringLess (x # xs) (y # ys) = (byte x < byte y \<or> (x = y \<and> stringLess xs ys))"

text \<open>The entries of a map in the order of their keys, as the encoder visits them. Of
  two entries of the list under one key the first is the map's, as for \<open>map_of\<close>.\<close>

fun insertEntry :: "string \<times> any \<Rightarrow> (string \<times> any) list \<Rightarrow> (string \<times> any) list" where
  "insertEntry kv [] = [kv]"
| "insertEntry kv (kv' # es) =
     (if fst kv = fst kv' then kv # es
      else if stringLess (fst kv) (fst kv') then kv # kv' # es
      else kv' # insertEntry kv es)"

definition sortedEntries :: "(string \<times> any) list \<Rightarrow> (string \<times> any) list" where
  "sortedEntries m = foldr insertEntry m []"

text \<open>The encodings of the elements of a list, separated by commas; the first error
  ends the encoding.\<close>

fun encodeAll :: "('a \<Rightarrow> go_error + bytes) \<Rightarrow> 'a list \<Rightarrow> go_error + bytes" where
  "encodeAll f [] = Inr []"
| "encodeAll f (x # xs) =
     (case f x of
        Inl err \<Rightarrow> Inl err
      | Inr b \<Rightarrow>
          (case encodeAll f xs of
             Inl err \<Rightarrow> Inl err
           | Inr bs \<Rightarrow> Inr (if xs = [] then b else b @ '','' @ bs)))"

text \<open>\<^verbatim>\<open>json.Marshal\<close> on the value of an \<^verbatim>\<open>interface{}\<close>, and on a
  \<^verbatim>\<open>map[string]interface{}\<close>.\<close>

fun encodeAny :: "any \<Rightarrow> go_error + bytes" where
  "encodeAny (AnyString s) = Inr (appendString s)"
| "encodeAny (AnyInt i) = Inr (Itoa i)"
| "encodeAny (AnyBool b) = Inr (if b then ''true'' else ''false'')"
| "encodeAny AnyNil = Inr ''null''"
| "encodeAny (AnyOther t marshalled) = marshalled"

definition encodeEntry :: "string \<times> any \<Rightarrow> go_error + bytes" where
  "encodeEntry kv =
     (case encodeAny (snd kv) of
        Inl err \<Rightarrow> Inl err
      | Inr b \<Rightarrow> Inr (appendString (fst kv) @ '':'' @ b))"

definition encodeMap :: "(string \<times> any) list \<Rightarrow> go_error + bytes" where
  "encodeMap m =
     (case encodeAll encodeEntry (sortedEntries m) of
        Inl err \<Rightarrow> Inl err
      | Inr b \<Rightarrow> Inr (''{'' @ b @ ''}''))"

text \<open>\<^verbatim>\<open>json.Marshal\<close> on an \<^verbatim>\<open>ast.Path\<close>: a name is a JSON string, an index a
  number.\<close>

fun encodePathElement :: "PathElement \<Rightarrow> go_error + bytes" where
  "encodePathElement (PathName v) = Inr (appendString v)"
| "encodePathElement (PathIndex v) = Inr (Itoa v)"

text \<open>
  \<^verbatim>\<open>json.Marshal\<close> on a \<^verbatim>\<open>*gqlerror.Error\<close>, by its struct tags: \<^verbatim>\<open>message\<close>
  always, \<^verbatim>\<open>path\<close> and \<^verbatim>\<open>extensions\<close> when they are not empty
  (\<^verbatim>\<open>omitempty\<close>); \<^verbatim>\<open>locations\<close> is unset and left out.
\<close>

definition encodeError :: "Error \<Rightarrow> go_error + bytes" where
  "encodeError e =
     (case (if e_Path e = [] then Inr []
            else (case encodeAll encodePathElement (e_Path e) of
                    Inl err \<Rightarrow> Inl err
                  | Inr b \<Rightarrow> Inr ('',\"path\":['' @ b @ '']''))) of
        Inl err \<Rightarrow> Inl err
      | Inr path \<Rightarrow>
          (case (if e_Extensions e = [] then Inr []
                 else (case encodeMap (e_Extensions e) of
                         Inl err \<Rightarrow> Inl err
                       | Inr b \<Rightarrow> Inr ('',\"extensions\":'' @ b))) of
             Inl err \<Rightarrow> Inl err
           | Inr extensions \<Rightarrow>
               Inr (''{\"message\":'' @ appendString (e_Message e) @ path @ extensions @ ''}'')))"

text \<open>The field \<^verbatim>\<open>errors\<close> of a \<^verbatim>\<open>graphql.Response\<close> with the comma after it;
  \<^verbatim>\<open>omitempty\<close> leaves an empty list out.\<close>

definition errorsField :: "Error list \<Rightarrow> go_error + bytes" where
  "errorsField errs =
     (if errs = [] then Inr []
      else (case encodeAll encodeError errs of
              Inl err \<Rightarrow> Inl err
            | Inr b \<Rightarrow> Inr (''\"errors\":['' @ b @ ''],'')))"

text \<open>\<^verbatim>\<open>json.Marshal\<close> on a \<^verbatim>\<open>*graphql.Response\<close>, by its struct tags: \<^verbatim>\<open>errors\<close>
  when there are any, then \<^verbatim>\<open>data\<close>.\<close>

definition Marshal_Response_std :: "Response \<Rightarrow> go_error + bytes" where
  "Marshal_Response_std r =
     (case errorsField (r_Errors r) of
        Inl err \<Rightarrow> Inl err
      | Inr errors \<Rightarrow>
          (case encodeRaw (r_Data r) of
             Inl err \<Rightarrow> Inl err
           | Inr d \<Rightarrow> Inr (''{'' @ errors @ ''\"data\":'' @ d @ ''}'')))"

definition encoding_json :: jsonlib where
  "encoding_json =
     \<lparr>Marshal_Response = Marshal_Response_std,
      Marshal_REST = Marshal_REST_std,
      Unmarshal_map = Unmarshal_map_std\<rparr>"

section \<open>A writer and a printer for the examples\<close>

text \<open>A sink that keeps the bytes it has taken and a script for the calls to come:
  \<open>Some err\<close> makes the next \<^verbatim>\<open>Write\<close> fail with \<open>err\<close> and take nothing, \<open>None\<close>
  (or an exhausted script) makes it take all the bytes.\<close>

type_synonym script_sink = "bytes \<times> go_error option list"

definition script_Write :: "script_sink Writer" where
  "script_Write b w =
     (case w of (buf, script) \<Rightarrow>
        (case script of
           Some err # script' \<Rightarrow> ((0, Some err), (buf, script'))
         | None # script' \<Rightarrow> ((length b, None), (buf @ b, script'))
         | [] \<Rightarrow> ((length b, None), (buf @ b, []))))"

text \<open>A printer that records the calls it receives.\<close>

definition log_printer :: "(string \<times> any list) list Printer" where
  "log_printer =
     \<lparr>Println = (\<lambda>v p. p @ [([], v)]),
      Printf = (\<lambda>format v p. p @ [(format, v)])\<rparr>"

section \<open>The words of the specification\<close>

text \<open>An error carries a code when its extensions have an entry \<^verbatim>\<open>code\<close>.\<close>

definition carriesCode :: "Error \<Rightarrow> bool" where
  "carriesCode e = (map_of (e_Extensions e) ''code'' \<noteq> None)"

text \<open>The \<^verbatim>\<open>code\<close> entry of the last error, in iteration order, that carries one.\<close>

definition lastCoded :: "Error list \<Rightarrow> any option" where
  "lastCoded errs =
     (case filter carriesCode errs of
        [] \<Rightarrow> None
      | e # es \<Rightarrow> map_of (e_Extensions (last (e # es))) ''code'')"

text \<open>The entry of one error in the message: its message, followed by a space and
  the rendering of its path when the path is not empty.\<close>

definition messageEntry :: "Error \<Rightarrow> string" where
  "messageEntry e =
     (if e_Path e = [] then e_Message e
      else e_Message e @ '' '' @ Path_String (e_Path e))"

text \<open>The number a string of decimal digits denotes, by the place of each digit.\<close>

fun decimalValue :: "string \<Rightarrow> nat" where
  "decimalValue [] = 0"
| "decimalValue (c # cs) = digitVal c * 10 ^ length cs + decimalValue cs"

text \<open>The numeric code a code string stands for: the number a string of digits
  denotes, at most the largest \<^verbatim>\<open>int\<close>; 422 for the two error kinds of \<^verbatim>\<open>errcode\<close>;
  500 for any other string.\<close>

definition numericCode :: "string \<Rightarrow> int" where
  "numericCode s =
     (if isNumber s then min (int (decimalValue s)) (2 ^ 63 - 1)
      else if s = errcode_ValidationFailed \<or> s = errcode_ParseFailed then 422
      else 500)"


section \<open>Properties of the loop, of the steps and of the serializer\<close>

lemma lastCoded_Nil: "lastCoded [] = None"
  by (simp add: lastCoded_def)

lemma lastCoded_Cons:
  "lastCoded (e # es) =
     (case lastCoded es of None \<Rightarrow> map_of (e_Extensions e) ''code'' | Some n \<Rightarrow> Some n)"
proof (cases "filter carriesCode es")
  case Nil
  then show ?thesis
    by (auto simp: lastCoded_def carriesCode_def)
next
  case (Cons x xs)
  then have "x \<in> set (filter carriesCode es)" "last (x # xs) \<in> set (filter carriesCode es)"
    by (simp_all del: last.simps)
      (metis last_in_set list.distinct(1) list.set_intros(1,2) set_ConsD)
  then have "carriesCode (last (x # xs))"
    by simp
  with Cons show ?thesis
    by (auto simp: lastCoded_def carriesCode_def)
qed

lemma errorsLoop_code:
  "fst (errorsLoop errs code msgs) =
     (case lastCoded errs of None \<Rightarrow> code | Some n \<Rightarrow> fst (string_assertion n))"
proof (induction errs arbitrary: code msgs)
  case Nil
  then show ?case by (simp add: lastCoded_Nil)
next
  case (Cons e es)
  show ?case
    by (simp add: Cons.IH lastCoded_Cons split: option.splits)
qed

lemma errorsLoop_msgs:
  "snd (errorsLoop errs code msgs) = msgs @ map messageEntry errs"
  by (induction errs arbitrary: code msgs) (simp_all add: messageEntry_def)

lemma foldl_digits:
  "foldl (\<lambda>n ch. n * 10 + int (digitVal ch)) a s = a * 10 ^ length s + int (decimalValue s)"
  by (induction s arbitrary: a) (simp_all add: algebra_simps)

lemma parseDigits_decimalValue: "parseDigits s = int (decimalValue s)"
  by (simp add: parseDigits_def foldl_digits)

lemma isNumber_no_sign: "isNumber s \<Longrightarrow> hd s \<noteq> CHR ''-'' \<and> hd s \<noteq> CHR ''+''"
  by (cases s) (auto simp: isNumber_def isDigit_def)

lemma Atoi_isNumber:
  "isNumber s \<Longrightarrow> fst (Atoi s) = min (int (decimalValue s)) maxInt"
  using isNumber_no_sign [of s]
  by (cases s) (auto simp: Atoi.simps parseDigits_decimalValue isNumber_def Let_def min_def)

lemma Itoa_422: "Itoa StatusUnprocessableEntity = ''422''"
  by (simp add: Itoa_def StatusUnprocessableEntity_def natDigits.simps digitChar_def)

lemma resolveCode_422: "resolveCode ''422'' = 422"
  by (simp add: resolveCode_def numRegexp_MatchString_def isNumber_def isDigit_def Atoi.simps
      parseDigits_def digitVal_def maxInt_def)

lemma resolveCode_empty: "resolveCode [] = 500"
  by (simp add: resolveCode_def numRegexp_MatchString_def isNumber_def
      errcode_ValidationFailed_def errcode_ParseFailed_def StatusInternalServerError_def)

lemma codeAndMessage_errors:
  "errs \<noteq> [] \<Longrightarrow>
   codeAndMessage errs =
     (resolveCode (case lastCoded errs of None \<Rightarrow> ''422'' | Some n \<Rightarrow> fst (string_assertion n)),
      Join (map messageEntry errs) ''; '')"
  using errorsLoop_code [of errs "''422''" "[]"] errorsLoop_msgs [of errs "''422''" "[]"]
  by (cases "errorsLoop errs ''422'' []") (simp add: codeAndMessage_def Itoa_422)

lemma codeAndMessage_Nil: "codeAndMessage [] = (0, [])"
  by (simp add: codeAndMessage_def)

lemma writeJSON_REST:
  "extractData lib (r_Data r) = Inr d \<Longrightarrow>
   writeJSON lib W pr stk r True s =
     emit lib W pr stk
       \<lparr>Code = fst (codeAndMessage (r_Errors r)),
        Message = snd (codeAndMessage (r_Errors r)),
        Data = d\<rparr> s"
  by (cases s) (simp add: writeJSON_def restResponse_def)

lemma writeJSON_REST_fault:
  "extractData lib (r_Data r) = Inl err \<Longrightarrow>
   writeJSON lib W pr stk r True s = recovered lib W pr stk s"
  by (cases s) (simp add: writeJSON_def restResponse_def)

lemma extractData_empty: "len d = 0 \<Longrightarrow> extractData lib d = Inr d"
  by (simp add: extractData_def)

lemmas json_eval =
  encoding_json_def Marshal_REST_std_def Marshal_Response_std_def Unmarshal_map_std_def
  encodeRaw_def appendCompact_def appendString_def Valid_def scan_eof_def members_def
  do_stateEndValue_def do_stateBeginValue_def do_stateBeginString_def do_stateEndTop_def
  do_state0_def do_stateESign_def expect_def pushParseState_def popParseState_def
  maxNestingDepth_def isSpace_def isHex_def byte_def isLineSep_def escape_u00_def
  escape_u202_def hexChar_def getu4_def isDigit_def Itoa_def natDigits.simps digitChar_def
  errorsField_def encodeError_def encodeMap_def encodeEntry_def sortedEntries_def

lemmas run_eval =
  writeJSON_def restResponse_def extractData_def codeAndMessage_def
  resolveCode_def emit_def recovered_def fallbackContent_def fallbackResponse_def
  marshal_and_write_def write_or_panic_def dbgPrintf_def len_def bytesOf_def
  numRegexp_MatchString_def isNumber_def Atoi.simps parseDigits_def digitVal_def maxInt_def
  errcode_ValidationFailed_def errcode_ParseFailed_def StatusInternalServerError_def
  StatusUnprocessableEntity_def script_Write_def log_printer_def
  string_assertion.simps Path_String_def

lemma lastCoded_append_uncoded:
  "list_all (\<lambda>e'. map_of (e_Extensions e') ''code'' = None) es2 \<Longrightarrow> lastCoded es2 = None"
  by (induction es2) (simp_all add: lastCoded_Nil lastCoded_Cons)

lemma lastCoded_append:
  "lastCoded (es1 @ es2) = (case lastCoded es2 of None \<Rightarrow> lastCoded es1 | Some n \<Rightarrow> Some n)"
  by (induction es1) (simp_all add: lastCoded_Nil lastCoded_Cons split: option.splits)


lemma extractData_fault:
  "0 < len d \<Longrightarrow> Unmarshal_map lib (bytesOf d) = Inl err \<Longrightarrow> extractData lib d = Inl err"
  by (simp add: extractData_def)

lemma recovered_eq:
  "recovered lib W pr stk (w, p) =
     (case W (fallbackContent lib) w of
        ((n, None), w') \<Rightarrow>
          (Returned, w',
           dbgPrintf pr ''restful response recover from panic:%v'' [AnyString (take 4096 stk)] p)
      | ((n, Some e), w') \<Rightarrow>
          (Panicked e, w',
           dbgPrintf pr ''restful response recover from panic:%v'' [AnyString (take 4096 stk)] p))"
  by (simp add: recovered_def write_or_panic_def Let_def split: prod.splits option.splits)

lemma writeJSON_GraphQL:
  "writeJSON lib W pr stk r False (w, p) =
     (case Marshal_Response lib r of
        Inl e \<Rightarrow> (Panicked e, w, p)
      | Inr b \<Rightarrow>
          (case W b w of
             ((n, None), w') \<Rightarrow> (Returned, w', p)
           | ((n, Some e), w') \<Rightarrow> (Panicked e, w', p)))"
  by (simp add: writeJSON_def marshal_and_write_def write_or_panic_def
      split: sum.splits prod.splits option.splits)


lemma emit_cases:
  "emit lib W pr stk response (w, p) =
     (case Marshal_REST lib response of
        Inl err \<Rightarrow> recovered lib W pr stk (w, p)
      | Inr b \<Rightarrow>
          (case W b w of
             ((n, None), w') \<Rightarrow> (Returned, w', p)
           | ((n, Some err), w') \<Rightarrow> recovered lib W pr stk (w', p)))"
  by (simp add: emit_def marshal_and_write_def write_or_panic_def
      split: sum.splits prod.splits option.splits)

lemma recovered_Panicked:
  "fst (recovered lib W pr stk (w0, p)) = Panicked e \<Longrightarrow>
   \<exists>m w1. W (fallbackContent lib) w0 = ((m, Some e), w1)"
  by (auto simp: recovered_eq split: prod.splits option.splits)

lemma writeJSON_REST_Panicked:
  "fst (writeJSON lib W pr stk r True (w, p)) = Panicked e \<Longrightarrow>
   \<exists>w0 m w1. W (fallbackContent lib) w0 = ((m, Some e), w1)"
  by (auto simp: writeJSON_def emit_cases
      split: sum.splits prod.splits option.splits)
    (blast dest: recovered_Panicked)+


lemma resolveCode_numericCode: "resolveCode s = numericCode s"
  by (simp add: numericCode_def resolveCode_def numRegexp_MatchString_def Atoi_isNumber
      maxInt_def StatusUnprocessableEntity_def StatusInternalServerError_def)

lemma numericCode_422: "numericCode ''422'' = 422"
  by (simp add: resolveCode_422 flip: resolveCode_numericCode)

lemma writeJSON_REST_written:
  "extractData lib (r_Data r) = Inr d \<Longrightarrow>
   Marshal_REST lib
     \<lparr>Code = fst (codeAndMessage (r_Errors r)),
      Message = snd (codeAndMessage (r_Errors r)),
      Data = d\<rparr> = Inr b \<Longrightarrow>
   W b w = ((n, None), w') \<Longrightarrow>
   writeJSON lib W pr stk r True (w, p) = (Returned, w', p)"
  by (simp add: writeJSON_REST emit_cases)

lemma foldl_scan_error: "fst sc = stateError \<Longrightarrow> fst (foldl scan_step sc cs) = stateError"
proof (induction cs arbitrary: sc)
  case Nil
  then show ?case by simp
next
  case (Cons c cs)
  from Cons.prems have "fst (scan_step sc c) = stateError"
    by (cases sc) simp
  then show ?case
    by (simp add: Cons.IH)
qed

lemma scan_eof_error: "fst sc = stateError \<Longrightarrow> \<not> scan_eof sc"
  by (simp add: scan_eof_def)

lemma appendCompact_from_eof:
  "scan_eof (fst (appendCompact_from sc src)) = scan_eof (foldl scan_step sc src)"
proof (induction sc src rule: appendCompact_from.induct)
  case (1 sc)
  then show ?case by simp
next
  case (2 sc c cs)
  show ?case
  proof (cases "fst (scan_step sc c) = stateError")
    case True
    then show ?thesis
      by (simp add: Let_def scan_eof_error foldl_scan_error)
  next
    case False
    show ?thesis
    proof (cases "isLineSep (c # cs)")
      case True
      have "foldl scan_step (foldl scan_step (scan_step sc c) (take 2 cs)) (drop 2 cs) =
            foldl scan_step (scan_step sc c) cs"
        by (simp flip: foldl_append)
      with 2(1) [OF refl False True] False True show ?thesis
        by (cases "appendCompact_from (foldl scan_step (scan_step sc c) (take 2 cs)) (drop 2 cs)")
          (simp add: Let_def)
    next
      case no: False
      with 2(2) [OF refl False no] False show ?thesis
        by (cases "appendCompact_from (scan_step sc c) cs") (simp add: Let_def)
    qed
  qed
qed

lemma appendCompact_Valid: "Valid b \<Longrightarrow> \<exists>out. appendCompact b = Inr out"
  using appendCompact_from_eof [of "(stateBeginValue, [])" b]
  by (cases "appendCompact_from (stateBeginValue, []) b") (simp add: appendCompact_def Valid_def)

lemma appendCompact_not_Valid:
  "\<not> Valid b \<Longrightarrow> appendCompact b = Inl (GoError ''*json.SyntaxError'')"
  using appendCompact_from_eof [of "(stateBeginValue, [])" b]
  by (cases "appendCompact_from (stateBeginValue, []) b") (simp add: appendCompact_def Valid_def)

lemma Marshal_Response_not_Valid:
  "r_Data r = Some b \<Longrightarrow> \<not> Valid b \<Longrightarrow> \<exists>e. Marshal_Response_std r = Inl e"
  by (simp add: Marshal_Response_std_def encodeRaw_def appendCompact_not_Valid split: sum.splits)

lemma Marshal_Response_Valid:
  "r_Data r = Some b \<Longrightarrow> appendCompact b = Inr out \<Longrightarrow>
   Marshal_Response_std r =
     (case errorsField (r_Errors r) of
        Inl e \<Rightarrow> Inl e
      | Inr errors \<Rightarrow> Inr (''{'' @ errors @ ''\"data\":'' @ out @ ''}''))"
  by (simp add: Marshal_Response_std_def encodeRaw_def split: sum.splits)

lemma Unmarshal_map_not_Valid:
  "\<not> Valid b \<Longrightarrow> Unmarshal_map encoding_json b = Inl (GoError ''*json.SyntaxError'')"
  by (simp add: encoding_json_def Unmarshal_map_std_def)

text \<open>
  Claim C1 (what the code does at the claim's input). \<^verbatim>\<open>writeJSONError\<close> with code 404,
  \<^verbatim>\<open>isRESTful\<close> true and message \<^verbatim>\<open>not found\<close> builds one error whose extensions
  hold the code as a Go \<^verbatim>\<open>int\<close>. The type assertion of line 98 fails on it, the
  working code string becomes empty, and the envelope that is serialized has code 500,
  not 404: with a serializer and a sink that work, the bytes written are
  \<^verbatim>\<open>{"code":500,"message":"not found","data":null}\<close>.
\<close>

theorem writeJSONError_404_REST:
  "writeJSONError lib W pr stk 404 True ''not found'' s =
     emit lib W pr stk \<lparr>Code = 500, Message = ''not found'', Data = None\<rparr> s
   \<and> writeJSONError encoding_json script_Write
        (None :: (string \<times> any list) list Printer option) [] 404 True ''not found''
        (([], []), []) =
     (Returned, (''{\"code\":500,\"message\":\"not found\",\"data\":null}'', []), [])"
proof
  show "writeJSONError lib W pr stk 404 True ''not found'' s =
     emit lib W pr stk \<lparr>Code = 500, Message = ''not found'', Data = None\<rparr> s"
    by (cases s)
      (simp add: writeJSONError_def writeJSON_def restResponse_def extractData_def len_def
        codeAndMessage_def resolveCode_empty)
  show "writeJSONError encoding_json script_Write
        (None :: (string \<times> any list) list Printer option) [] 404 True ''not found''
        (([], []), []) =
     (Returned, (''{\"code\":500,\"message\":\"not found\",\"data\":null}'', []), [])"
    by (simp add: writeJSONError_def run_eval json_eval Let_def)
qed


text \<open>
  Claim C2, amended. When the non-empty data payload fails to decode, REST mode does
  not propagate that fault: the one thing it hands to the sink is the serialized fixed
  envelope with code 500 and the message
  \<^verbatim>\<open>unexpected error: unmarshal or write response error\<close>, and it returns when the
  sink takes it (first part, for every serializer). GraphQL mode, with the serializer of
  this theory: a payload that is not valid JSON does not decode, serializing the result
  fails, and the call panics with nothing written (second part); a payload that is
  valid JSON is not decoded at all, mapping or not: it is written, compacted, under
  \<^verbatim>\<open>data\<close>, and a fault can come only from serializing the error list or from the
  sink (third part).
\<close>

theorem malformed_data_by_mode:
  "(0 < len (r_Data r) \<and> Unmarshal_map lib (bytesOf (r_Data r)) = Inl err \<longrightarrow>
      writeJSON lib W pr stk r True (w, p) =
        (case W (case Marshal_REST lib
                        \<lparr>Code = 500,
                         Message = ''unexpected error: unmarshal or write response error'',
                         Data = None\<rparr> of
                   Inl e \<Rightarrow> [] | Inr b \<Rightarrow> b) w of
           ((n, None), w') \<Rightarrow>
             (Returned, w',
              dbgPrintf pr ''restful response recover from panic:%v''
                [AnyString (take 4096 stk)] p)
         | ((n, Some e), w') \<Rightarrow>
             (Panicked e, w',
              dbgPrintf pr ''restful response recover from panic:%v''
                [AnyString (take 4096 stk)] p)))
   \<and> (r_Data r = Some b \<and> \<not> Valid b \<longrightarrow>
        Unmarshal_map encoding_json b = Inl (GoError ''*json.SyntaxError'') \<and>
        (\<exists>e. writeJSON encoding_json W pr stk r False (w, p) = (Panicked e, w, p)))
   \<and> (r_Data r = Some b \<and> Valid b \<longrightarrow>
        (\<exists>out. appendCompact b = Inr out \<and>
           writeJSON encoding_json W pr stk r False (w, p) =
             (case errorsField (r_Errors r) of
                Inl e \<Rightarrow> (Panicked e, w, p)
              | Inr errors \<Rightarrow>
                  (case W (''{'' @ errors @ ''\"data\":'' @ out @ ''}'') w of
                     ((n, None), w') \<Rightarrow> (Returned, w', p)
                   | ((n, Some e), w') \<Rightarrow> (Panicked e, w', p)))))"
proof (intro conjI impI)
  assume "0 < len (r_Data r) \<and> Unmarshal_map lib (bytesOf (r_Data r)) = Inl err"
  then have "extractData lib (r_Data r) = Inl err"
    by (simp add: extractData_fault)
  then have "writeJSON lib W pr stk r True (w, p) = recovered lib W pr stk (w, p)"
    by (rule writeJSON_REST_fault)
  then show "writeJSON lib W pr stk r True (w, p) =
        (case W (case Marshal_REST lib
                        \<lparr>Code = 500,
                         Message = ''unexpected error: unmarshal or write response error'',
                         Data = None\<rparr> of
                   Inl e \<Rightarrow> [] | Inr b \<Rightarrow> b) w of
           ((n, None), w') \<Rightarrow>
             (Returned, w',
              dbgPrintf pr ''restful response recover from panic:%v''
                [AnyString (take 4096 stk)] p)
         | ((n, Some e), w') \<Rightarrow>
             (Panicked e, w',
              dbgPrintf pr ''restful response recover from panic:%v''
                [AnyString (take 4096 stk)] p))"
    by (simp add: recovered_eq fallbackContent_def fallbackResponse_def
        StatusInternalServerError_def)
next
  assume a: "r_Data r = Some b \<and> \<not> Valid b"
  then show "Unmarshal_map encoding_json b = Inl (GoError ''*json.SyntaxError'')"
    by (simp add: Unmarshal_map_not_Valid)
  from a obtain e where "Marshal_Response_std r = Inl e"
    using Marshal_Response_not_Valid by blast
  then have "writeJSON encoding_json W pr stk r False (w, p) = (Panicked e, w, p)"
    by (simp add: writeJSON_GraphQL encoding_json_def)
  then show "\<exists>e. writeJSON encoding_json W pr stk r False (w, p) = (Panicked e, w, p)"
    by blast
next
  assume a: "r_Data r = Some b \<and> Valid b"
  then obtain out where out: "appendCompact b = Inr out"
    using appendCompact_Valid by blast
  with a have "Marshal_Response encoding_json r =
     (case errorsField (r_Errors r) of
        Inl e \<Rightarrow> Inl e
      | Inr errors \<Rightarrow> Inr (''{'' @ errors @ ''\"data\":'' @ out @ ''}''))"
    by (simp add: encoding_json_def Marshal_Response_Valid)
  then have "writeJSON encoding_json W pr stk r False (w, p) =
             (case errorsField (r_Errors r) of
                Inl e \<Rightarrow> (Panicked e, w, p)
              | Inr errors \<Rightarrow>
                  (case W (''{'' @ errors @ ''\"data\":'' @ out @ ''}'') w of
                     ((n, None), w') \<Rightarrow> (Returned, w', p)
                   | ((n, Some e), w') \<Rightarrow> (Panicked e, w', p)))"
    by (simp add: writeJSON_GraphQL split: sum.splits)
  with out show "\<exists>out. appendCompact b = Inr out \<and>
           writeJSON encoding_json W pr stk r False (w, p) =
             (case errorsField (r_Errors r) of
                Inl e \<Rightarrow> (Panicked e, w, p)
              | Inr errors \<Rightarrow>
                  (case W (''{'' @ errors @ ''\"data\":'' @ out @ ''}'') w of
                     ((n, None), w') \<Rightarrow> (Returned, w', p)
                   | ((n, Some e), w') \<Rightarrow> (Panicked e, w', p)))"
    by blast
qed

theorem malformed_data_by_mode_witness:
  "writeJSON encoding_json script_Write (Some log_printer) ''goroutine 1 [running]:''
       \<lparr>r_Errors = [], r_Data = Some ''{bad''\<rparr> True (([], []), []) =
     (Returned,
      (''{\"code\":500,\"message\":\"unexpected error: unmarshal or write response error\",\"data\":null}'',
       []),
      [(''restful response recover from panic:%v'', [AnyString ''goroutine 1 [running]:''])]) \<and>
   writeJSON encoding_json script_Write (Some log_printer) ''goroutine 1 [running]:''
       \<lparr>r_Errors = [], r_Data = Some ''{bad''\<rparr> False (([], []), []) =
     (Panicked (GoError ''*json.MarshalerError''), ([], []), []) \<and>
   writeJSON encoding_json script_Write (Some log_printer) ''goroutine 1 [running]:''
       \<lparr>r_Errors = [\<lparr>e_Message = ''m'', e_Path = [], e_Extensions = [(''code'', AnyInt 404)]\<rparr>],
        r_Data = Some ''\"text\"''\<rparr> False (([], []), []) =
     (Returned,
      (''{\"errors\":[{\"message\":\"m\",\"extensions\":{\"code\":404}}],\"data\":\"text\"}'', []),
      [])"
proof -
  let ?r = "\<lparr>r_Errors = [], r_Data = Some ''{bad''\<rparr>"
  let ?r' = "\<lparr>r_Errors = [\<lparr>e_Message = ''m'', e_Path = [], e_Extensions = [(''code'', AnyInt 404)]\<rparr>],
        r_Data = Some ''\"text\"''\<rparr>"
  have l: "0 < len (r_Data ?r)"
    by (simp add: len_def)
  have u: "Unmarshal_map encoding_json (bytesOf (r_Data ?r)) = Inl (GoError ''*json.SyntaxError'')"
    by (simp add: bytesOf_def json_eval)
  have v: "r_Data ?r = Some ''{bad'' \<and> \<not> Valid ''{bad''"
    "r_Data ?r' = Some ''\"text\"'' \<and> Valid ''\"text\"''"
    by (simp_all add: json_eval)
  have g: "writeJSON encoding_json script_Write (Some log_printer) ''goroutine 1 [running]:''
       ?r False (([], []), []) = (Panicked (GoError ''*json.MarshalerError''), ([], []), [])"
    using malformed_data_by_mode
      [where r = ?r and b = "''{bad''" and W = script_Write and pr = "Some log_printer"
         and stk = "''goroutine 1 [running]:''" and w = "([], [])" and p = "[]"
         and lib = encoding_json and err = "GoError ''*json.SyntaxError''"] v(1)
    by (simp add: writeJSON_GraphQL json_eval)
  have c: "appendCompact ''\"text\"'' = Inr ''\"text\"''"
    by (simp add: json_eval)
  have e: "errorsField (r_Errors ?r') =
      Inr ''\"errors\":[{\"message\":\"m\",\"extensions\":{\"code\":404}}],''"
    by (simp add: json_eval)
  from malformed_data_by_mode
    [where r = ?r and b = "''{bad''" and W = script_Write and pr = "Some log_printer"
       and stk = "''goroutine 1 [running]:''" and w = "([], [])" and p = "[]"
       and lib = encoding_json and err = "GoError ''*json.SyntaxError''"] l u
  have a: "writeJSON encoding_json script_Write (Some log_printer) ''goroutine 1 [running]:''
       ?r True (([], []), []) =
     (Returned,
      (''{\"code\":500,\"message\":\"unexpected error: unmarshal or write response error\",\"data\":null}'',
       []),
      [(''restful response recover from panic:%v'', [AnyString ''goroutine 1 [running]:''])])"
    by (simp add: script_Write_def dbgPrintf_def log_printer_def json_eval)
  from malformed_data_by_mode
    [where r = ?r' and b = "''\"text\"''" and W = script_Write and pr = "Some log_printer"
       and stk = "''goroutine 1 [running]:''" and w = "([], [])" and p = "[]"
       and lib = encoding_json and err = "GoError ''*json.SyntaxError''"] v(2) c e
  have b: "writeJSON encoding_json script_Write (Some log_printer) ''goroutine 1 [running]:''
       ?r' False (([], []), []) =
     (Returned,
      (''{\"errors\":[{\"message\":\"m\",\"extensions\":{\"code\":404}}],\"data\":\"text\"}'', []),
      [])"
    by (simp add: script_Write_def)
  from a g b show ?thesis
    by simp
qed

text \<open>Counterexample to claim C2 as stated, on the payload \<^verbatim>\<open>[1,2]\<close>: it does not decode into
  a mapping, and GraphQL mode writes the result and returns.\<close>

theorem GraphQL_passes_non_mapping_data:
  "Unmarshal_map encoding_json ''[1,2]'' = Inl (GoError ''*json.UnmarshalTypeError'') \<and>
   writeJSON encoding_json script_Write (Some log_printer) []
       \<lparr>r_Errors = [], r_Data = Some ''[1,2]''\<rparr> False (([], []), []) =
     (Returned, (''{\"data\":[1,2]}'', []), [])"
  by (simp add: writeJSON_def marshal_and_write_def write_or_panic_def script_Write_def json_eval)


text \<open>
  Claim C3, amended. For every non-empty error list in REST mode, when no step faults
  (the payload is empty or decodes, the envelope serializes and the sink takes the
  bytes), what is written is the serialization of the envelope whose code is 422 when
  no error carries a \<^verbatim>\<open>code\<close> extension, and the numeric code of the string \<open>s\<close>
  when the last error that carries one holds the string \<open>s\<close>. An entry that is no
  string is left out here (claims C1 and C10).
\<close>

theorem final_code_of_last_coded_error:
  assumes "r_Errors r \<noteq> []"
    and "extractData lib (r_Data r) = Inr d"
    and "lastCoded (r_Errors r) = None \<and> code = 422 \<or>
         (\<exists>s. lastCoded (r_Errors r) = Some (AnyString s) \<and> code = numericCode s)"
    and "Marshal_REST lib
           \<lparr>Code = code, Message = Join (map messageEntry (r_Errors r)) ''; '', Data = d\<rparr> =
         Inr b"
    and "W b w = ((n, None), w')"
  shows "writeJSON lib W pr stk r True (w, p) = (Returned, w', p)"
proof -
  from assms(3) have "fst (codeAndMessage (r_Errors r)) = code"
    using assms(1)
    by (auto simp: codeAndMessage_errors resolveCode_numericCode numericCode_422)
  moreover have "snd (codeAndMessage (r_Errors r)) = Join (map messageEntry (r_Errors r)) ''; ''"
    using assms(1) by (simp add: codeAndMessage_errors)
  ultimately show ?thesis
    using writeJSON_REST_written [OF assms(2), of b W w n w' pr stk p] assms(4,5)
    by simp
qed

theorem final_code_of_last_coded_error_witness:
  "writeJSON encoding_json script_Write (Some log_printer) []
     \<lparr>r_Errors =
        [\<lparr>e_Message = ''a'', e_Path = [], e_Extensions = [(''code'', AnyString ''404'')]\<rparr>,
         \<lparr>e_Message = ''b'', e_Path = [], e_Extensions = [(''code'', AnyString ''409'')]\<rparr>,
         \<lparr>e_Message = ''c'', e_Path = [], e_Extensions = []\<rparr>],
      r_Data = None\<rparr> True (([], []), []) =
     (Returned, (''{\"code\":409,\"message\":\"a; b; c\",\"data\":null}'', []), [])
   \<and> writeJSON encoding_json script_Write (Some log_printer) []
     \<lparr>r_Errors = [\<lparr>e_Message = ''c'', e_Path = [], e_Extensions = []\<rparr>],
      r_Data = None\<rparr> True (([], []), []) =
     (Returned, (''{\"code\":422,\"message\":\"c\",\"data\":null}'', []), [])"
proof -
  let ?e1 = "\<lparr>e_Message = ''a'', e_Path = [], e_Extensions = [(''code'', AnyString ''404'')]\<rparr>"
  let ?e2 = "\<lparr>e_Message = ''b'', e_Path = [], e_Extensions = [(''code'', AnyString ''409'')]\<rparr>"
  let ?e3 = "\<lparr>e_Message = ''c'', e_Path = [], e_Extensions = []\<rparr>"
  let ?r = "\<lparr>r_Errors = [?e1, ?e2, ?e3], r_Data = None\<rparr>"
  let ?r' = "\<lparr>r_Errors = [?e3], r_Data = None\<rparr>"
  let ?b = "''{\"code\":409,\"message\":\"a; b; c\",\"data\":null}''"
  let ?b' = "''{\"code\":422,\"message\":\"c\",\"data\":null}''"
  have n: "r_Errors ?r \<noteq> []" "r_Errors ?r' \<noteq> []"
    by simp_all
  have d: "extractData encoding_json (r_Data ?r) = Inr None"
    "extractData encoding_json (r_Data ?r') = Inr None"
    by (simp_all add: extractData_def len_def)
  have c: "lastCoded (r_Errors ?r) = None \<and> (409 :: int) = 422 \<or>
      (\<exists>s. lastCoded (r_Errors ?r) = Some (AnyString s) \<and> 409 = numericCode s)"
    "lastCoded (r_Errors ?r') = None \<and> (422 :: int) = 422 \<or>
      (\<exists>s. lastCoded (r_Errors ?r') = Some (AnyString s) \<and> 422 = numericCode s)"
    by (simp_all add: lastCoded_def carriesCode_def numericCode_def isNumber_def isDigit_def
        digitVal_def)
  have m: "Marshal_REST encoding_json
        \<lparr>Code = 409, Message = Join (map messageEntry (r_Errors ?r)) ''; '', Data = None\<rparr> =
      Inr ?b"
    "Marshal_REST encoding_json
        \<lparr>Code = 422, Message = Join (map messageEntry (r_Errors ?r')) ''; '', Data = None\<rparr> =
      Inr ?b'"
    by (simp_all add: messageEntry_def json_eval)
  have w: "script_Write ?b ([], []) = ((length ?b, None), (?b, []))"
    "script_Write ?b' ([], []) = ((length ?b', None), (?b', []))"
    by (simp_all add: script_Write_def)
  note t = final_code_of_last_coded_error
    [where W = script_Write and pr = "Some log_printer" and stk = "[]" and p = "[]"]
  from t [OF n(1) d(1) c(1) m(1) w(1)] t [OF n(2) d(2) c(2) m(2) w(2)]
  show ?thesis
    by simp
qed

text \<open>Counterexample to claim C3 as stated: one error with the code string
  \<^verbatim>\<open>404\<close> and a payload that does not decode; the envelope written has code 500.\<close>

theorem coded_error_with_malformed_data:
  "lastCoded [\<lparr>e_Message = ''a'', e_Path = [], e_Extensions = [(''code'', AnyString ''404'')]\<rparr>] =
     Some (AnyString ''404'') \<and>
   numericCode ''404'' = 404 \<and>
   writeJSON encoding_json script_Write (None :: (string \<times> any list) list Printer option) []
     \<lparr>r_Errors =
        [\<lparr>e_Message = ''a'', e_Path = [], e_Extensions = [(''code'', AnyString ''404'')]\<rparr>],
      r_Data = Some ''{bad''\<rparr> True (([], []), []) =
     (Returned,
      (''{\"code\":500,\"message\":\"unexpected error: unmarshal or write response error\",\"data\":null}'',
       []),
      [])"
  by (simp add: lastCoded_def carriesCode_def numericCode_def isNumber_def isDigit_def digitVal_def
      run_eval json_eval Let_def)

text \<open>
  Claim C4, amended. A working code string of decimal digits only (at least one)
  resolves to the number \<open>N\<close> it denotes when \<open>N\<close> is at most \<open>2 ^ 63 - 1\<close>, the
  largest 64-bit \<^verbatim>\<open>int\<close>, and to \<open>2 ^ 63 - 1\<close> when \<open>N\<close> is larger; any other string
  resolves to 422 when it is one of the two error kinds of \<^verbatim>\<open>errcode\<close>, and to 500
  otherwise.
\<close>

theorem resolveCode_cases:
  "resolveCode code =
     (if isNumber code then min (int (decimalValue code)) (2 ^ 63 - 1)
      else if code = errcode_ValidationFailed \<or> code = errcode_ParseFailed then 422
      else 500)"
  by (simp add: resolveCode_def numRegexp_MatchString_def Atoi_isNumber maxInt_def
      StatusUnprocessableEntity_def StatusInternalServerError_def)

theorem resolveCode_cases_witness:
  "resolveCode ''404'' = 404 \<and> resolveCode ''007'' = 7 \<and>
   resolveCode ''GRAPHQL_VALIDATION_FAILED'' = 422 \<and>
   resolveCode ''GRAPHQL_PARSE_FAILED'' = 422 \<and>
   resolveCode ''NOT_FOUND'' = 500 \<and> resolveCode ''4o4'' = 500 \<and> resolveCode [] = 500"
  using resolveCode_cases [of "''404''"] resolveCode_cases [of "''007''"]
    resolveCode_cases [of "''GRAPHQL_VALIDATION_FAILED''"]
    resolveCode_cases [of "''GRAPHQL_PARSE_FAILED''"]
    resolveCode_cases [of "''NOT_FOUND''"] resolveCode_cases [of "''4o4''"]
    resolveCode_cases [of "[]"]
  by (simp add: isNumber_def isDigit_def digitVal_def errcode_ValidationFailed_def
      errcode_ParseFailed_def)

text \<open>Counterexample to claim C4 as stated, on the digits of \<open>2 ^ 63\<close>: the code is not that
  number.\<close>

theorem resolveCode_saturates:
  "isNumber ''9223372036854775808'' \<and>
   decimalValue ''9223372036854775808'' = 9223372036854775808 \<and>
   resolveCode ''9223372036854775808'' = 9223372036854775807 \<and>
   resolveCode ''9223372036854775808'' \<noteq> int (decimalValue ''9223372036854775808'')"
  by (simp add: isNumber_def isDigit_def digitVal_def resolveCode_def numRegexp_MatchString_def
      Atoi.simps parseDigits_def maxInt_def)


text \<open>
  Claim C5. For every execution result whose non-empty data payload decodes into a
  mapping with exactly one key \<open>k\<close>, the envelope REST mode builds and hands to the
  final step has as its data the value \<open>v\<close> under that key, whatever \<open>k\<close> is. Code
  and message are those derived from the errors.
\<close>

theorem single_key_data:
  assumes "0 < len (r_Data r)"
    and "Unmarshal_map lib (bytesOf (r_Data r)) = Inr [(k, v)]"
  shows "writeJSON lib W pr stk r True s =
           emit lib W pr stk
             \<lparr>Code = fst (codeAndMessage (r_Errors r)),
              Message = snd (codeAndMessage (r_Errors r)),
              Data = v\<rparr> s"
proof -
  from assms have "extractData lib (r_Data r) = Inr v"
    by (simp add: extractData_def)
  then show ?thesis
    by (rule writeJSON_REST)
qed

theorem single_key_data_witness:
  "0 < len (r_Data \<lparr>r_Errors = [], r_Data = Some ''{\"user\":{\"id\":1}}''\<rparr>) \<and>
   Unmarshal_map encoding_json (bytesOf (r_Data \<lparr>r_Errors = [], r_Data = Some ''{\"user\":{\"id\":1}}''\<rparr>)) =
     Inr [(''user'', Some ''{\"id\":1}'')] \<and>
   writeJSON encoding_json script_Write (Some log_printer) []
       \<lparr>r_Errors = [], r_Data = Some ''{\"user\":{\"id\":1}}''\<rparr> True (([], []), []) =
     (Returned, (''{\"code\":0,\"data\":{\"id\":1}}'', []), [])"
proof -
  let ?r = "\<lparr>r_Errors = [], r_Data = Some ''{\"user\":{\"id\":1}}''\<rparr>"
  have l: "0 < len (r_Data ?r)"
    by (simp add: len_def)
  have u: "Unmarshal_map encoding_json (bytesOf (r_Data ?r)) = Inr [(''user'', Some ''{\"id\":1}'')]"
    by (simp add: bytesOf_def json_eval)
  have e: "emit encoding_json script_Write (Some log_printer) []
             \<lparr>Code = fst (codeAndMessage (r_Errors ?r)),
              Message = snd (codeAndMessage (r_Errors ?r)),
              Data = Some ''{\"id\":1}''\<rparr> (([], []), []) =
           (Returned, (''{\"code\":0,\"data\":{\"id\":1}}'', []), [])"
    by (simp add: codeAndMessage_Nil emit_def marshal_and_write_def write_or_panic_def
        script_Write_def json_eval)
  from single_key_data [OF l u, of script_Write "Some log_printer" "[]" "(([], []), [])"] l u e
  show ?thesis
    by simp
qed


text \<open>
  Claim C6, amended. For every non-empty error list in REST mode, when no step faults
  (the payload is empty or decodes, the envelope serializes and the sink takes the
  bytes), what is written is the serialization of the envelope whose message is the
  entries of the errors, in order, joined by \<^verbatim>\<open>"; "\<close>: an entry is the error's
  message, followed by one space and the rendering of its path when the path is not
  empty.
\<close>

theorem message_of_errors:
  assumes "r_Errors r \<noteq> []"
    and "extractData lib (r_Data r) = Inr d"
    and "Marshal_REST lib
           \<lparr>Code = fst (codeAndMessage (r_Errors r)),
            Message = Join (map messageEntry (r_Errors r)) ''; '',
            Data = d\<rparr> = Inr b"
    and "W b w = ((n, None), w')"
  shows "writeJSON lib W pr stk r True (w, p) = (Returned, w', p)"
  using writeJSON_REST_written [OF assms(2), of b W w n w' pr stk p] assms(1,3,4)
  by (simp add: codeAndMessage_errors)

theorem message_of_errors_witness:
  "writeJSON encoding_json script_Write (Some log_printer) []
     \<lparr>r_Errors =
        [\<lparr>e_Message = ''no such user'',
          e_Path = [PathName ''users'', PathIndex 3, PathName ''name''],
          e_Extensions = []\<rparr>,
         \<lparr>e_Message = ''denied'', e_Path = [], e_Extensions = []\<rparr>],
      r_Data = None\<rparr> True (([], []), []) =
     (Returned,
      (''{\"code\":422,\"message\":\"no such user users[3].name; denied\",\"data\":null}'', []),
      [])"
proof -
  let ?e1 = "\<lparr>e_Message = ''no such user'',
          e_Path = [PathName ''users'', PathIndex 3, PathName ''name''],
          e_Extensions = []\<rparr>"
  let ?e2 = "\<lparr>e_Message = ''denied'', e_Path = [], e_Extensions = []\<rparr>"
  let ?r = "\<lparr>r_Errors = [?e1, ?e2], r_Data = None\<rparr>"
  let ?b = "''{\"code\":422,\"message\":\"no such user users[3].name; denied\",\"data\":null}''"
  have n: "r_Errors ?r \<noteq> []"
    by simp
  have d: "extractData encoding_json (r_Data ?r) = Inr None"
    by (simp add: extractData_def len_def)
  have c: "fst (codeAndMessage (r_Errors ?r)) = 422"
    by (simp add: codeAndMessage_errors lastCoded_def carriesCode_def resolveCode_422)
  have j: "Join (map messageEntry (r_Errors ?r)) ''; '' = ''no such user users[3].name; denied''"
    by (simp add: messageEntry_def Path_String_def Itoa_def natDigits.simps digitChar_def)
  have m: "Marshal_REST encoding_json
        \<lparr>Code = fst (codeAndMessage (r_Errors ?r)),
         Message = Join (map messageEntry (r_Errors ?r)) ''; '',
         Data = None\<rparr> = Inr ?b"
    unfolding c j by (simp add: json_eval)
  have w: "script_Write ?b ([], []) = ((length ?b, None), (?b, []))"
    by (simp add: script_Write_def)
  from message_of_errors
    [where W = script_Write and pr = "Some log_printer" and stk = "[]" and p = "[]", OF n d m w]
  show ?thesis
    by simp
qed

text \<open>Counterexample to claim C6 as stated: one error with the message
  \<^verbatim>\<open>denied\<close> and the payload \<^verbatim>\<open>[1,2]\<close>, which does not decode into a mapping; the
  message written is that of the fallback envelope.\<close>

theorem errors_with_malformed_data:
  "Join (map messageEntry [\<lparr>e_Message = ''denied'', e_Path = [], e_Extensions = []\<rparr>]) ''; '' =
     ''denied'' \<and>
   writeJSON encoding_json script_Write (None :: (string \<times> any list) list Printer option) []
     \<lparr>r_Errors = [\<lparr>e_Message = ''denied'', e_Path = [], e_Extensions = []\<rparr>],
      r_Data = Some ''[1,2]''\<rparr> True (([], []), []) =
     (Returned,
      (''{\"code\":500,\"message\":\"unexpected error: unmarshal or write response error\",\"data\":null}'',
       []),
      [])"
  by (simp add: messageEntry_def run_eval json_eval Let_def)

text \<open>
  Claim C7, amended. For every execution result with no errors and an empty data
  payload, when the envelope with code 0, the empty message (which the struct tag
  leaves out of the JSON text) and the original raw data serializes and the sink takes
  the bytes, they are what REST mode writes (first part, for every serializer). With
  the serializer of this theory the envelope of the nil payload serializes to
  \<^verbatim>\<open>{"code":0,"data":null}\<close> (second part); that of an empty payload that is not
  nil does not serialize, and the deferred function writes the fallback envelope (third
  part).
\<close>

theorem no_errors_no_data_envelope:
  "(r_Errors r = [] \<and> len (r_Data r) = 0 \<and>
    Marshal_REST lib \<lparr>Code = 0, Message = [], Data = r_Data r\<rparr> = Inr b \<and>
    W b w = ((n, None), w') \<longrightarrow>
      writeJSON lib W pr stk r True (w, p) = (Returned, w', p))
   \<and> Marshal_REST encoding_json \<lparr>Code = 0, Message = [], Data = None\<rparr> =
         Inr ''{\"code\":0,\"data\":null}''
   \<and> (r_Errors r = [] \<and> r_Data r = Some [] \<longrightarrow>
      writeJSON encoding_json W pr stk r True (w, p) = recovered encoding_json W pr stk (w, p))"
proof (intro conjI impI)
  assume a: "r_Errors r = [] \<and> len (r_Data r) = 0 \<and>
    Marshal_REST lib \<lparr>Code = 0, Message = [], Data = r_Data r\<rparr> = Inr b \<and>
    W b w = ((n, None), w')"
  then have "extractData lib (r_Data r) = Inr (r_Data r)"
    by (simp add: extractData_empty)
  from writeJSON_REST_written [OF this, of b W w n w' pr stk p] a
  show "writeJSON lib W pr stk r True (w, p) = (Returned, w', p)"
    by (simp add: codeAndMessage_Nil)
next
  show "Marshal_REST encoding_json \<lparr>Code = 0, Message = [], Data = None\<rparr> =
         Inr ''{\"code\":0,\"data\":null}''"
    by (simp add: json_eval)
next
  assume a: "r_Errors r = [] \<and> r_Data r = Some []"
  then have "extractData encoding_json (r_Data r) = Inr (Some [])"
    by (simp add: extractData_def len_def)
  moreover have "Marshal_REST encoding_json \<lparr>Code = 0, Message = [], Data = Some []\<rparr> =
      Inl (GoError ''*json.MarshalerError'')"
    by (simp add: json_eval)
  ultimately show
    "writeJSON encoding_json W pr stk r True (w, p) = recovered encoding_json W pr stk (w, p)"
    using a by (simp add: writeJSON_REST codeAndMessage_Nil emit_cases)
qed

theorem no_errors_no_data_envelope_witness:
  "writeJSON encoding_json script_Write (Some log_printer) [] \<lparr>r_Errors = [], r_Data = None\<rparr>
       True (([], []), []) =
     (Returned, (''{\"code\":0,\"data\":null}'', []), [])"
proof -
  let ?r = "\<lparr>r_Errors = [], r_Data = None\<rparr>"
  have h: "r_Errors ?r = [] \<and> len (r_Data ?r) = 0 \<and>
      Marshal_REST encoding_json \<lparr>Code = 0, Message = [], Data = r_Data ?r\<rparr> =
        Inr ''{\"code\":0,\"data\":null}'' \<and>
      script_Write ''{\"code\":0,\"data\":null}'' ([], []) =
        ((length ''{\"code\":0,\"data\":null}'', None), (''{\"code\":0,\"data\":null}'', []))"
    by (simp add: len_def script_Write_def json_eval)
  from no_errors_no_data_envelope
    [where r = ?r and lib = encoding_json and b = "''{\"code\":0,\"data\":null}''"
       and W = script_Write and w = "([], [])" and n = "length ''{\"code\":0,\"data\":null}''"
       and w' = "(''{\"code\":0,\"data\":null}'', [])" and pr = "Some log_printer"
       and stk = "[]" and p = "[]"] h
  show ?thesis
    by blast
qed

text \<open>Counterexample to claim C7 as stated: no errors and an empty payload that is
  not nil; the envelope written has code 500 and a message.\<close>

theorem empty_payload_not_nil_falls_back:
  "r_Errors \<lparr>r_Errors = [], r_Data = Some []\<rparr> = [] \<and>
   len (r_Data \<lparr>r_Errors = [], r_Data = Some []\<rparr>) = 0 \<and>
   writeJSON encoding_json script_Write (None :: (string \<times> any list) list Printer option) []
       \<lparr>r_Errors = [], r_Data = Some []\<rparr> True (([], []), []) =
     (Returned,
      (''{\"code\":500,\"message\":\"unexpected error: unmarshal or write response error\",\"data\":null}'',
       []),
      [])"
  by (simp add: run_eval json_eval Let_def)

text \<open>
  Claim C8. In REST mode a fault of an earlier step (the first line), of the final
  serialization (the second) or of the final write (the third) runs the deferred
  function, which writes the serialized fallback envelope (the last line). When that
  write succeeds the call returns; when it fails the call panics with the error of
  that write. No other panic leaves a REST call.
\<close>

theorem REST_faults_recovered_once:
  "(restResponse lib r = Inl err \<longrightarrow>
      writeJSON lib W pr stk r True (w, p) = recovered lib W pr stk (w, p))
   \<and> (restResponse lib r = Inr response \<and> Marshal_REST lib response = Inl err \<longrightarrow>
      writeJSON lib W pr stk r True (w, p) = recovered lib W pr stk (w, p))
   \<and> (restResponse lib r = Inr response \<and> Marshal_REST lib response = Inr b \<and>
        W b w = ((n, Some err), w') \<longrightarrow>
      writeJSON lib W pr stk r True (w, p) = recovered lib W pr stk (w', p))
   \<and> (W (fallbackContent lib) w0 = ((m, None), w1) \<longrightarrow>
      recovered lib W pr stk (w0, p) =
        (Returned, w1,
         dbgPrintf pr ''restful response recover from panic:%v'' [AnyString (take 4096 stk)] p))
   \<and> (W (fallbackContent lib) w0 = ((m, Some err'), w1) \<longrightarrow>
      recovered lib W pr stk (w0, p) =
        (Panicked err', w1,
         dbgPrintf pr ''restful response recover from panic:%v'' [AnyString (take 4096 stk)] p))
   \<and> (fst (writeJSON lib W pr stk r True (w, p)) = Panicked e \<longrightarrow>
      (\<exists>w0 m w1. W (fallbackContent lib) w0 = ((m, Some e), w1)))
   \<and> (Marshal_REST lib
          \<lparr>Code = 500, Message = ''unexpected error: unmarshal or write response error'',
           Data = None\<rparr> = Inr fb \<longrightarrow>
      fallbackContent lib = fb)"
proof (intro conjI impI)
  show "fallbackContent lib = fb"
    if "Marshal_REST lib
          \<lparr>Code = 500, Message = ''unexpected error: unmarshal or write response error'',
           Data = None\<rparr> = Inr fb"
    using that
    by (simp add: fallbackContent_def fallbackResponse_def StatusInternalServerError_def)
  show "writeJSON lib W pr stk r True (w, p) = recovered lib W pr stk (w, p)"
    if "restResponse lib r = Inl err"
    using that by (simp add: writeJSON_def)
  show "writeJSON lib W pr stk r True (w, p) = recovered lib W pr stk (w, p)"
    if "restResponse lib r = Inr response \<and> Marshal_REST lib response = Inl err"
    using that by (simp add: writeJSON_def emit_cases)
  show "writeJSON lib W pr stk r True (w, p) = recovered lib W pr stk (w', p)"
    if "restResponse lib r = Inr response \<and> Marshal_REST lib response = Inr b \<and>
        W b w = ((n, Some err), w')"
    using that by (simp add: writeJSON_def emit_cases)
  show "recovered lib W pr stk (w0, p) =
        (Returned, w1,
         dbgPrintf pr ''restful response recover from panic:%v'' [AnyString (take 4096 stk)] p)"
    if "W (fallbackContent lib) w0 = ((m, None), w1)"
    using that by (simp add: recovered_eq)
  show "recovered lib W pr stk (w0, p) =
        (Panicked err', w1,
         dbgPrintf pr ''restful response recover from panic:%v'' [AnyString (take 4096 stk)] p)"
    if "W (fallbackContent lib) w0 = ((m, Some err'), w1)"
    using that by (simp add: recovered_eq)
  show "\<exists>w0 m w1. W (fallbackContent lib) w0 = ((m, Some e), w1)"
    if "fst (writeJSON lib W pr stk r True (w, p)) = Panicked e"
    using that by (rule writeJSON_REST_Panicked)
qed

theorem REST_faults_recovered_once_witness:
  "writeJSON encoding_json script_Write (Some log_printer) ''stack''
       \<lparr>r_Errors = [], r_Data = None\<rparr> True
       (([], [Some (GoError ''broken pipe'')]), []) =
     (Returned,
      (''{\"code\":500,\"message\":\"unexpected error: unmarshal or write response error\",\"data\":null}'',
       []),
      [(''restful response recover from panic:%v'', [AnyString ''stack''])])
   \<and> writeJSON encoding_json script_Write (Some log_printer) ''stack''
       \<lparr>r_Errors = [], r_Data = None\<rparr> True
       (([], [Some (GoError ''broken pipe''), Some (GoError ''closed'')]), []) =
     (Panicked (GoError ''closed''), ([], []),
      [(''restful response recover from panic:%v'', [AnyString ''stack''])])
   \<and> writeJSON encoding_json script_Write (Some log_printer) ''stack''
       \<lparr>r_Errors = [], r_Data = Some []\<rparr> True (([], []), []) =
     (Returned,
      (''{\"code\":500,\"message\":\"unexpected error: unmarshal or write response error\",\"data\":null}'',
       []),
      [(''restful response recover from panic:%v'', [AnyString ''stack''])])"
proof -
  let ?fb = "''{\"code\":500,\"message\":\"unexpected error: unmarshal or write response error\",\"data\":null}''"
  let ?r = "\<lparr>r_Errors = [], r_Data = None\<rparr>"
  let ?r' = "\<lparr>r_Errors = [], r_Data = Some []\<rparr>"
  let ?e = "\<lparr>Code = 0, Message = [], Data = None\<rparr>"
  let ?e' = "\<lparr>Code = 0, Message = [], Data = Some []\<rparr>"
  have fb: "fallbackContent encoding_json = ?fb"
    by (simp add: fallbackContent_def fallbackResponse_def StatusInternalServerError_def json_eval)
  have rr: "restResponse encoding_json ?r = Inr ?e" "restResponse encoding_json ?r' = Inr ?e'"
    by (simp_all add: restResponse_def extractData_def len_def codeAndMessage_Nil)
  have m: "Marshal_REST encoding_json ?e = Inr ''{\"code\":0,\"data\":null}''"
    "Marshal_REST encoding_json ?e' = Inl (GoError ''*json.MarshalerError'')"
    by (simp_all add: json_eval)
  have w1: "script_Write ''{\"code\":0,\"data\":null}'' ([], [Some (GoError ''broken pipe'')]) =
      ((0, Some (GoError ''broken pipe'')), ([], []))"
    "script_Write ''{\"code\":0,\"data\":null}''
        ([], [Some (GoError ''broken pipe''), Some (GoError ''closed'')]) =
      ((0, Some (GoError ''broken pipe'')), ([], [Some (GoError ''closed'')]))"
    by (simp_all add: script_Write_def)
  have w2: "script_Write (fallbackContent encoding_json) ([], []) = ((length ?fb, None), (?fb, []))"
    "script_Write (fallbackContent encoding_json) ([], [Some (GoError ''closed'')]) =
       ((0, Some (GoError ''closed'')), ([], []))"
    unfolding fb by (simp_all add: script_Write_def)
  note t = REST_faults_recovered_once
    [where lib = encoding_json and W = script_Write and pr = "Some log_printer"
       and stk = "''stack''" and p = "[]"]
  from t [where r = ?r and response = ?e and w = "([], [Some (GoError ''broken pipe'')])"
            and w0 = "([], [])"] rr(1) m(1) w1(1) w2(1)
  have a: "writeJSON encoding_json script_Write (Some log_printer) ''stack'' ?r True
       (([], [Some (GoError ''broken pipe'')]), []) =
     (Returned, (?fb, []), [(''restful response recover from panic:%v'', [AnyString ''stack''])])"
    by (simp add: dbgPrintf_def log_printer_def)
  from t [where r = ?r and response = ?e
            and w = "([], [Some (GoError ''broken pipe''), Some (GoError ''closed'')])"
            and w0 = "([], [Some (GoError ''closed'')])"] rr(1) m(1) w1(2) w2(2)
  have b: "writeJSON encoding_json script_Write (Some log_printer) ''stack'' ?r True
       (([], [Some (GoError ''broken pipe''), Some (GoError ''closed'')]), []) =
     (Panicked (GoError ''closed''), ([], []),
      [(''restful response recover from panic:%v'', [AnyString ''stack''])])"
    by (simp add: dbgPrintf_def log_printer_def)
  from t [where r = ?r' and response = ?e' and w = "([], [])" and w0 = "([], [])"] rr(2) m(2) w2(1)
  have c: "writeJSON encoding_json script_Write (Some log_printer) ''stack'' ?r' True
       (([], []), []) =
     (Returned, (?fb, []), [(''restful response recover from panic:%v'', [AnyString ''stack''])])"
    by (simp add: dbgPrintf_def log_printer_def)
  from a b c show ?thesis
    by simp
qed


text \<open>
  Claim C10. An error whose \<^verbatim>\<open>code\<close> entry is not a string sets the working code
  string to the empty string, whatever it was. So when such an error is the last one
  that carries a \<^verbatim>\<open>code\<close> entry, the envelope handed to the final step has code
  500, whatever the errors before it carry.
\<close>

theorem non_string_code_resolves_to_500:
  assumes "map_of (e_Extensions e) ''code'' = Some n"
    and "\<not> snd (string_assertion n)"
    and "list_all (\<lambda>e'. map_of (e_Extensions e') ''code'' = None) es2"
    and "r_Errors r = es1 @ e # es2"
    and "extractData lib (r_Data r) = Inr d"
  shows "errorsLoop (e # es2) code msgs = errorsLoop es2 [] (msgs @ [messageEntry e]) \<and>
         writeJSON lib W pr stk r True s =
           emit lib W pr stk
             \<lparr>Code = 500, Message = snd (codeAndMessage (r_Errors r)), Data = d\<rparr> s"
proof
  from assms(2) have a: "fst (string_assertion n) = []"
    by (cases n) simp_all
  with assms(1) show "errorsLoop (e # es2) code msgs = errorsLoop es2 [] (msgs @ [messageEntry e])"
    by (simp add: messageEntry_def)
  have "lastCoded (r_Errors r) = Some n"
    using assms(1,3,4)
    by (simp add: lastCoded_append lastCoded_Cons lastCoded_append_uncoded)
  then have "fst (codeAndMessage (r_Errors r)) = 500"
    using assms(4) a by (simp add: codeAndMessage_errors resolveCode_empty)
  with writeJSON_REST [OF assms(5), of W pr stk s]
  show "writeJSON lib W pr stk r True s =
           emit lib W pr stk
             \<lparr>Code = 500, Message = snd (codeAndMessage (r_Errors r)), Data = d\<rparr> s"
    by simp
qed

theorem non_string_code_resolves_to_500_witness:
  "writeJSON encoding_json script_Write (Some log_printer) []
     \<lparr>r_Errors =
        [\<lparr>e_Message = ''a'', e_Path = [], e_Extensions = [(''code'', AnyString ''404'')]\<rparr>,
         \<lparr>e_Message = ''b'', e_Path = [], e_Extensions = [(''code'', AnyInt 409)]\<rparr>,
         \<lparr>e_Message = ''c'', e_Path = [], e_Extensions = []\<rparr>],
      r_Data = None\<rparr> True (([], []), []) =
     (Returned, (''{\"code\":500,\"message\":\"a; b; c\",\"data\":null}'', []), [])"
proof -
  let ?e1 = "\<lparr>e_Message = ''a'', e_Path = [], e_Extensions = [(''code'', AnyString ''404'')]\<rparr>"
  let ?e2 = "\<lparr>e_Message = ''b'', e_Path = [], e_Extensions = [(''code'', AnyInt 409)]\<rparr>"
  let ?e3 = "\<lparr>e_Message = ''c'', e_Path = [], e_Extensions = []\<rparr>"
  let ?r = "\<lparr>r_Errors = [?e1, ?e2, ?e3], r_Data = None\<rparr>"
  have h1: "map_of (e_Extensions ?e2) ''code'' = Some (AnyInt 409)"
    and h2: "\<not> snd (string_assertion (AnyInt 409))"
    and h3: "list_all (\<lambda>e'. map_of (e_Extensions e') ''code'' = None) [?e3]"
    and h4: "r_Errors ?r = [?e1] @ ?e2 # [?e3]"
    and h5: "extractData encoding_json (r_Data ?r) = Inr None"
    by (simp_all add: extractData_def len_def)
  have m: "snd (codeAndMessage (r_Errors ?r)) = ''a; b; c''"
    by (simp add: codeAndMessage_def split: prod.splits)
  from non_string_code_resolves_to_500 [OF h1 h2 h3 h4 h5,
      of _ _ script_Write "Some log_printer" "[]" "(([], []), [])"]
  show ?thesis
    unfolding m
    by (simp add: emit_def marshal_and_write_def write_or_panic_def script_Write_def json_eval)
qed


text \<open>
  Claim C9. With no printer registered (the initial value of the variable, or after
  registering nil), \<^verbatim>\<open>dbgPrintf\<close> returns without printing, a call of \<^verbatim>\<open>writeJSON\<close>
  leaves the diagnostic sink as it was, and the way the call ends and what it writes
  are the same as with any printer registered.
\<close>

theorem unset_printer_drops_output:
  "dbgPrintf unset_printer format v p = p
   \<and> dbgPrintf (RegisterPrinter None old_printer) format v p = p
   \<and> snd (snd (writeJSON lib W unset_printer stk r isRESTful (w, p))) = p
   \<and> fst (writeJSON lib W unset_printer stk r isRESTful (w, p)) =
       fst (writeJSON lib W pr stk r isRESTful (w, p))
   \<and> fst (snd (writeJSON lib W unset_printer stk r isRESTful (w, p))) =
       fst (snd (writeJSON lib W pr stk r isRESTful (w, p)))"
  by (simp add: dbgPrintf_def unset_printer_def RegisterPrinter_def writeJSON_def emit_def
      recovered_def Let_def split: sum.splits prod.splits outcome.splits)

theorem unset_printer_drops_output_witness:
  "writeJSON encoding_json script_Write
       (unset_printer :: (string \<times> any list) list Printer option)
       ''stack'' \<lparr>r_Errors = [], r_Data = Some ''{bad''\<rparr> True (([], []), []) =
     (Returned,
      (''{\"code\":500,\"message\":\"unexpected error: unmarshal or write response error\",\"data\":null}'',
       []),
      [])
   \<and> writeJSON encoding_json script_Write (Some log_printer)
       ''stack'' \<lparr>r_Errors = [], r_Data = Some ''{bad''\<rparr> True (([], []), []) =
     (Returned,
      (''{\"code\":500,\"message\":\"unexpected error: unmarshal or write response error\",\"data\":null}'',
       []),
      [(''restful response recover from panic:%v'', [AnyString ''stack''])])"
proof -
  let ?r = "\<lparr>r_Errors = [], r_Data = Some ''{bad''\<rparr>"
  let ?fb = "''{\"code\":500,\"message\":\"unexpected error: unmarshal or write response error\",\"data\":null}''"
  let ?unset = "unset_printer :: (string \<times> any list) list Printer option"
  have b: "writeJSON encoding_json script_Write (Some log_printer) ''stack'' ?r True (([], []), []) =
     (Returned, (?fb, []), [(''restful response recover from panic:%v'', [AnyString ''stack''])])"
    by (simp add: run_eval json_eval Let_def)
  from unset_printer_drops_output
    [where format = "[]" and v = "[]" and old_printer = None and p = "[]"
       and lib = encoding_json and W = script_Write and stk = "''stack''" and r = ?r
       and isRESTful = True and w = "([], [])" and pr = "Some log_printer"] b
  have "snd (snd (writeJSON encoding_json script_Write ?unset ''stack'' ?r True (([], []), []))) = []"
    and "fst (writeJSON encoding_json script_Write ?unset ''stack'' ?r True (([], []), [])) = Returned"
    and "fst (snd (writeJSON encoding_json script_Write ?unset ''stack'' ?r True (([], []), []))) =
           (?fb, [])"
    by simp_all
  then have "writeJSON encoding_json script_Write ?unset ''stack'' ?r True (([], []), []) =
      (Returned, (?fb, []), [])"
    by (metis prod.collapse)
  with b show ?thesis
    by simp
qed

end
